theory Spec2Isabelle
  imports Main
begin

section \<open>Values of the training script\<close>

text \<open>
  The script \<^verbatim>\<open>image/mae/main_pretrain.py\<close> drives external collaborators (the
  engine, the model, the loss scaler, the learning-rate helper, \<^verbatim>\<open>torch.save\<close>). The
  embedding records every call the script makes on them, in order, with its arguments,
  and every way the script can stop. Logging and timing are left out.
\<close>

text \<open>
  A Python float. \<open>Finite m e\<close> stands for the finite value \<open>m * 2 ^ e\<close>; the script
  only asks whether a float is finite (\<^verbatim>\<open>math.isfinite\<close>) and passes floats on.
\<close>

datatype pyfloat = Finite int int | PosInf | NegInf | NaN

fun isfinite :: "pyfloat \<Rightarrow> bool" where
  "isfinite (Finite m e) = True"
| "isfinite PosInf = False"
| "isfinite NegInf = False"
| "isfinite NaN = False"

text \<open>A \<^verbatim>\<open>pathlib.Path\<close>, as the list of its components.\<close>

type_synonym path = "string list"

text \<open>
  \<^verbatim>\<open>p / name\<close> for a name that is one relative component, as the checkpoint file
  name and the dataset directory names are.
\<close>

definition joinpath :: "path \<Rightarrow> string \<Rightarrow> path" where
  "joinpath p name = p @ [name]"

text \<open>The settings object \<^verbatim>\<open>gpc.config\<close>; \<open>OUTPUT_DIR = None\<close> is the falsy setting.\<close>

record config =
  BATCH_SIZE :: int
  LEARNING_RATE :: pyfloat
  MINIMUM_LEARNING_RATE :: pyfloat
  NUM_EPOCHS :: int
  WARMUP_EPOCHS :: int
  ACCUM_ITER :: int
  MASK_RATIO :: pyfloat
  OUTPUT_DIR :: "path option"
  CHECKPOINT_INTERVAL :: int
  RESUME :: bool
  RESUME_ADDRESS :: string
  RESUME_START_EPOCH :: int

datatype exn = ZeroDivisionError

text \<open>How the process stops early: \<^verbatim>\<open>sys.exit(code)\<close> or an uncaught exception.\<close>

datatype exit = SysExit int | Uncaught exn

text \<open>Python's \<^verbatim>\<open>a % b\<close> on integers: floor modulus, raising on a zero divisor.\<close>

definition py_mod :: "int \<Rightarrow> int \<Rightarrow> exn + int" where
  "py_mod a b = (if b = 0 then Inl ZeroDivisionError else Inr (a mod b))"

text \<open>
  The loss tensor returned by the forward pass, and the tensor after the in-place
  \<^verbatim>\<open>loss /= k\<close>. Tensor arithmetic is kept symbolic.
\<close>

datatype tensor = Loss pyfloat | TrueDiv tensor int

text \<open>The argument object built by \<^verbatim>\<open>lr_sched_args(lr=, min_lr=, epochs=, warmup_epochs=)\<close>.\<close>

record lr_sched_args =
  lr :: pyfloat
  min_lr :: pyfloat
  epochs :: int
  warmup_epochs :: int

text \<open>
  The float \<^verbatim>\<open>data_iter_step / len(train_dataloader) + epoch\<close>, kept symbolic:
  \<open>EpochPosition i n e\<close> is \<open>i / n + e\<close>.
\<close>

datatype position = EpochPosition nat nat int

text \<open>The objects the script hands to its collaborators.\<close>

datatype component = EngineModel | EngineOptimizer | LossScaler

datatype ckpt_value = StateDict component | IntValue int | ConfigValue config

type_synonym checkpoint = "(string \<times> ckpt_value) list"

text \<open>
  One call on a collaborator:
  \<^item> \<open>EngineTrain\<close>: \<^verbatim>\<open>engine.train()\<close>;
  \<^item> \<open>EngineZeroGrad\<close>: \<^verbatim>\<open>engine.zero_grad()\<close>;
  \<^item> \<open>LrSchedAdjust opt pos args\<close>: \<^verbatim>\<open>lr_sched.adjust_learning_rate(opt, pos, args)\<close>;
  \<^item> \<open>ModelForward mask l\<close>: \<^verbatim>\<open>engine.model(samples.cuda(), mask_ratio=mask)\<close>, whose
    loss tensor reads \<open>l\<close> under \<^verbatim>\<open>.item()\<close>;
  \<^item> \<open>Print l\<close>: the message printed for a loss that is not finite;
  \<^item> \<open>ScalerCall loss opt params update_grad\<close>: the call of \<^verbatim>\<open>loss_scaler\<close>;
  \<^item> \<open>TorchSave d p\<close>: \<^verbatim>\<open>torch.save(d, p)\<close>.
\<close>

datatype event =
    EngineTrain
  | EngineZeroGrad
  | LrSchedAdjust component position lr_sched_args
  | ModelForward pyfloat pyfloat
  | Print pyfloat
  | ScalerCall tensor component component bool
  | TorchSave checkpoint path

text \<open>A piece of the script: the calls it made, and the early stop if there was one.\<close>

type_synonym run = "event list \<times> exit option"

definition then_do :: "run \<Rightarrow> run \<Rightarrow> run" where
  "then_do r s = (case r of (ev, Some x) \<Rightarrow> (ev, Some x)
                          | (ev, None) \<Rightarrow> (ev @ fst s, snd s))"

section \<open>The data-loader factory\<close>

text \<open>What \<^verbatim>\<open>datasets.ImageFolder(path, transform=transform)\<close> was built from.\<close>

record 'tr image_folder =
  root :: path
  transform :: 'tr

text \<open>The keyword arguments \<^verbatim>\<open>get_dataloader\<close> was called with.\<close>

record 'tr dataloader =
  dataset :: "'tr image_folder"
  shuffle :: bool
  batch_size :: int
  num_workers :: int
  pin_memory :: bool
  drop_last :: bool

definition load_imgfolder :: "path \<Rightarrow> 'tr \<Rightarrow> 'tr image_folder" where
  "load_imgfolder p tr = \<lparr>root = p, transform = tr\<rparr>"

definition get_dataloader ::
  "'tr image_folder \<Rightarrow> bool \<Rightarrow> int \<Rightarrow> int \<Rightarrow> bool \<Rightarrow> bool \<Rightarrow> 'tr dataloader" where
  "get_dataloader ds sh bs nw pm dl =
     \<lparr>dataset = ds, shuffle = sh, batch_size = bs, num_workers = nw,
      pin_memory = pm, drop_last = dl\<rparr>"

definition pretrain_dataloaders ::
  "config \<Rightarrow> path \<Rightarrow> 'tr \<Rightarrow> 'tr \<Rightarrow> 'tr dataloader \<times> 'tr dataloader" where
  "pretrain_dataloaders cfg datapath transform_train transform_val =
     (let train_dataset = load_imgfolder (joinpath datapath ''train'') transform_train;
          test_dataset = load_imgfolder (joinpath datapath ''val'') transform_val;
          train_dataloader =
            get_dataloader train_dataset True (BATCH_SIZE cfg) 1 True True;
          test_dataloader =
            get_dataloader train_dataset True (BATCH_SIZE cfg) 1 True False
      in (train_dataloader, test_dataloader))"

section \<open>Resume\<close>

text \<open>
  Modelled from the spec: \<^verbatim>\<open>deit_helper.load_model_args\<close> is not among the sources. It
  is called with the resume address and the resume start-epoch setting and its result is
  read back as \<^verbatim>\<open>args.start_epoch\<close>, so it is an object holding these two attributes.
\<close>

record load_model_args =
  resume :: string
  start_epoch :: int

text \<open>
  \<^verbatim>\<open>misc.load_model\<close> is not among the sources either. It receives the argument
  object by reference, so what it leaves in it is a parameter \<open>load_model\<close> of the
  model; the script returns \<^verbatim>\<open>args.start_epoch\<close> as read after that call.
\<close>

definition resume_model ::
  "(load_model_args \<Rightarrow> load_model_args) \<Rightarrow> config \<Rightarrow> load_model_args \<times> int" where
  "resume_model load_model cfg =
     (let args = \<lparr>resume = RESUME_ADDRESS cfg, start_epoch = RESUME_START_EPOCH cfg\<rparr>;
          args' = load_model args
      in (args, start_epoch args'))"

section \<open>The steps of one batch\<close>

definition adjust_learning_rate :: "nat \<Rightarrow> nat \<Rightarrow> int \<Rightarrow> config \<Rightarrow> run" where
  "adjust_learning_rate data_iter_step len epoch cfg =
     (let args = \<lparr>lr = LEARNING_RATE cfg, min_lr = MINIMUM_LEARNING_RATE cfg,
                  epochs = NUM_EPOCHS cfg, warmup_epochs = WARMUP_EPOCHS cfg\<rparr>
      in if len = 0 then ([], Some (Uncaught ZeroDivisionError))
         else ([LrSchedAdjust EngineOptimizer (EpochPosition data_iter_step len epoch) args],
               None))"

text \<open>
  \<^verbatim>\<open>sys\<close> is bound by the import in the script's entry block, which runs before
  \<^verbatim>\<open>main\<close>; the model is the script run from that entry.
\<close>

definition exit_if_infinite_loss :: "pyfloat \<Rightarrow> run" where
  "exit_if_infinite_loss l =
     (if \<not> isfinite l then ([Print l], Some (SysExit 1)) else ([], None))"

text \<open>
  Dividing a tensor by zero does not raise; the modulus in the keyword argument does, and
  it is evaluated before the scaler is called.
\<close>

definition scale_loss :: "tensor \<Rightarrow> nat \<Rightarrow> config \<Rightarrow> run" where
  "scale_loss loss data_iter_step cfg =
     (let loss' = TrueDiv loss (ACCUM_ITER cfg)
      in case py_mod (int data_iter_step + 1) (ACCUM_ITER cfg) of
           Inl x \<Rightarrow> ([], Some (Uncaught x))
         | Inr r \<Rightarrow> ([ScalerCall loss' EngineOptimizer EngineModel (r = 0)], None))"

section \<open>Checkpoints\<close>

text \<open>The decimal text of an integer, as an f-string renders it.\<close>

definition digit_char :: "nat \<Rightarrow> char" where
  "digit_char d = ''0123456789'' ! d"

function str_nat :: "nat \<Rightarrow> string" where
  "str_nat n = (if n < 10 then [digit_char n]
                else str_nat (n div 10) @ [digit_char (n mod 10)])"
  by pat_completeness auto
termination
  by (relation "measure (\<lambda>n. n)") auto

declare str_nat.simps [simp del]

definition str_int :: "int \<Rightarrow> string" where
  "str_int i = (if i < 0 then CHR ''-'' # str_nat (nat (- i)) else str_nat (nat i))"

definition save_model ::
  "component \<Rightarrow> path \<Rightarrow> int \<Rightarrow> config \<Rightarrow> component \<Rightarrow> component \<Rightarrow> event" where
  "save_model model output_dir epoch cfg optimizer loss_scaler =
     (let checkpoint_path = joinpath output_dir (''checkpoint-'' @ str_int epoch @ ''.pth'')
      in TorchSave
           [(''model'', StateDict model),
            (''optimizer'', StateDict optimizer),
            (''epoch'', IntValue epoch),
            (''scaler'', StateDict loss_scaler),
            (''config'', ConfigValue cfg)]
           checkpoint_path)"

section \<open>The training loop\<close>

text \<open>
  The train loader is an opaque iterable. \<open>loader e\<close> lists, for the pass made in epoch
  \<open>e\<close>, the value each forward pass returns as \<^verbatim>\<open>loss.item()\<close>, one per batch;
  its length is \<^verbatim>\<open>len(train_dataloader)\<close>.
\<close>

type_synonym loader = "int \<Rightarrow> pyfloat list"

text \<open>The body of the batch loop at index \<open>data_iter_step\<close>.\<close>

definition train_step :: "config \<Rightarrow> nat \<Rightarrow> int \<Rightarrow> nat \<Rightarrow> pyfloat \<Rightarrow> run" where
  "train_step cfg len epoch data_iter_step loss_value =
     (case py_mod (int data_iter_step) (ACCUM_ITER cfg) of
        Inl x \<Rightarrow> ([], Some (Uncaught x))
      | Inr r \<Rightarrow>
          then_do (if r = 0 then adjust_learning_rate data_iter_step len epoch cfg
                   else ([], None))
         (then_do ([ModelForward (MASK_RATIO cfg) loss_value], None)
         (then_do (exit_if_infinite_loss loss_value)
         (then_do (scale_loss (Loss loss_value) data_iter_step cfg)
                  (case py_mod (int data_iter_step + 1) (ACCUM_ITER cfg) of
                     Inl x \<Rightarrow> ([], Some (Uncaught x))
                   | Inr r' \<Rightarrow> (if r' = 0 then [EngineZeroGrad] else [], None))))))"

text \<open>
  The batch loop, \<^verbatim>\<open>enumerate\<close> written out: the log holds, for each index reached,
  the calls made in that iteration.
\<close>

fun train_batches ::
  "config \<Rightarrow> nat \<Rightarrow> int \<Rightarrow> nat \<Rightarrow> pyfloat list \<Rightarrow> (nat \<times> event list) list \<times> exit option" where
  "train_batches cfg len epoch i [] = ([], None)"
| "train_batches cfg len epoch i (l # ls) =
     (case train_step cfg len epoch i l of
        (ev, Some x) \<Rightarrow> ([(i, ev)], Some x)
      | (ev, None) \<Rightarrow>
          (case train_batches cfg len epoch (Suc i) ls of
             (logs, r) \<Rightarrow> ((i, ev) # logs, r)))"

text \<open>The checkpoint decision at the end of an epoch.\<close>

definition checkpoint_step :: "config \<Rightarrow> int \<Rightarrow> run" where
  "checkpoint_step cfg epoch =
     (case OUTPUT_DIR cfg of
        None \<Rightarrow> ([], None)
      | Some output_dir \<Rightarrow>
          (case py_mod epoch (CHECKPOINT_INTERVAL cfg) of
             Inl x \<Rightarrow> ([], Some (Uncaught x))
           | Inr r \<Rightarrow>
               if r = 0 \<or> epoch + 1 = NUM_EPOCHS cfg
               then ([save_model EngineModel output_dir epoch cfg EngineOptimizer LossScaler],
                     None)
               else ([], None)))"

text \<open>What one pass of the epoch loop did.\<close>

record epoch_log =
  epoch_index :: int
  begin_events :: "event list"
  batch_logs :: "(nat \<times> event list) list"
  end_events :: "event list"

definition train_epoch :: "config \<Rightarrow> loader \<Rightarrow> int \<Rightarrow> epoch_log \<times> exit option" where
  "train_epoch cfg train_dataloader epoch =
     (let ls = train_dataloader epoch;
          (logs, x) = train_batches cfg (length ls) epoch 0 ls;
          (ev, y) = then_do ([], x) (checkpoint_step cfg epoch)
      in (\<lparr>epoch_index = epoch, begin_events = [EngineTrain, EngineZeroGrad],
           batch_logs = logs, end_events = ev\<rparr>, y))"

function epochs_loop ::
  "config \<Rightarrow> loader \<Rightarrow> int \<Rightarrow> epoch_log list \<times> exit option" where
  "epochs_loop cfg train_dataloader epoch =
     (if epoch < NUM_EPOCHS cfg
      then (case train_epoch cfg train_dataloader epoch of
              (log, Some x) \<Rightarrow> ([log], Some x)
            | (log, None) \<Rightarrow>
                (case epochs_loop cfg train_dataloader (epoch + 1) of
                   (logs, r) \<Rightarrow> (log # logs, r)))
      else ([], None))"
  by pat_completeness auto
termination
  by (relation "measure (\<lambda>(cfg, train_dataloader, epoch). nat (NUM_EPOCHS cfg - epoch))") auto

declare epochs_loop.simps [simp del]

text \<open>A whole run of \<^verbatim>\<open>main\<close>; \<open>stopped = None\<close> is the normal end.\<close>

record run_log =
  resumed :: "load_model_args option"
  epoch_logs :: "epoch_log list"
  stopped :: "exit option"

definition main ::
  "config \<Rightarrow> loader \<Rightarrow> (load_model_args \<Rightarrow> load_model_args) \<Rightarrow> run_log" where
  "main cfg train_dataloader load_model =
     (let (res, start_epoch) =
            (if RESUME cfg
             then (case resume_model load_model cfg of (args, e) \<Rightarrow> (Some args, e))
             else (None, 0));
          (logs, x) = epochs_loop cfg train_dataloader start_epoch
      in \<lparr>resumed = res, epoch_logs = logs, stopped = x\<rparr>)"

section \<open>Reading a run\<close>

text \<open>All calls of one epoch, in the order they were made.\<close>

definition events_of :: "epoch_log \<Rightarrow> event list" where
  "events_of elog = begin_events elog @ concat (map snd (batch_logs elog)) @ end_events elog"

fun is_scaler_call :: "event \<Rightarrow> bool" where
  "is_scaler_call (ScalerCall loss opt params update_grad) = True"
| "is_scaler_call ev = False"

fun is_lr_adjust :: "event \<Rightarrow> bool" where
  "is_lr_adjust (LrSchedAdjust opt pos args) = True"
| "is_lr_adjust ev = False"

fun is_torch_save :: "event \<Rightarrow> bool" where
  "is_torch_save (TorchSave d p) = True"
| "is_torch_save ev = False"

text \<open>
  The calls of the loop body at index \<open>i\<close> when \<open>ACCUM_ITER\<close> is not zero, written
  out in one piece; \<open>train_step_closed\<close> below proves that \<open>train_step\<close> makes them.
\<close>

definition step_events :: "config \<Rightarrow> nat \<Rightarrow> int \<Rightarrow> nat \<Rightarrow> pyfloat \<Rightarrow> event list" where
  "step_events cfg len e i l =
     (if int i mod ACCUM_ITER cfg = 0
        then [LrSchedAdjust EngineOptimizer (EpochPosition i len e)
               \<lparr>lr = LEARNING_RATE cfg, min_lr = MINIMUM_LEARNING_RATE cfg,
                epochs = NUM_EPOCHS cfg, warmup_epochs = WARMUP_EPOCHS cfg\<rparr>]
        else []) @
     [ModelForward (MASK_RATIO cfg) l] @
     (if isfinite l
        then [ScalerCall (TrueDiv (Loss l) (ACCUM_ITER cfg)) EngineOptimizer EngineModel
                ((int i + 1) mod ACCUM_ITER cfg = 0)] @
             (if (int i + 1) mod ACCUM_ITER cfg = 0 then [EngineZeroGrad] else [])
        else [Print l])"

section \<open>What the collaborators do with the calls\<close>

text \<open>
  Modelled from the spec: the engine, the optimizer, the learning-rate helper
  (\<^verbatim>\<open>util/lr_sched.py\<close>) and the loss scaler (\<^verbatim>\<open>util/misc.py\<close>) are not among the
  sources. The spec says of them: zero-grad resets the accumulated gradients; the
  learning-rate helper applies the new rate to all optimizer parameter groups; the scaler
  performs the backward pass and steps the optimizer only when its update flag is set; an
  accumulation window sums gradients before one optimizer step. The state below keeps
  what these sentences speak of: the rate last written to the optimizer (\<open>None\<close> is the
  rate it was built with), the number of optimizer steps, the losses backpropagated since
  the last zero-grad, the losses whose gradients an optimizer step has applied, and the
  number of scaler updates.
\<close>

record training_state =
  learning_rate :: "(position \<times> lr_sched_args) option"
  optimizer_steps :: nat
  gradients :: "tensor list"
  applied :: "tensor list"
  scaler_updates :: nat

text \<open>
  Modelled from the spec: the effect of one call on that state. Zero-grad empties the
  accumulated gradients; the learning-rate helper writes the rate; the scaler
  backpropagates the loss it is given and, when the update flag is set, steps the
  optimizer on the gradients accumulated so far and updates itself. The other calls leave
  the state alone.
\<close>

fun apply_event :: "event \<Rightarrow> training_state \<Rightarrow> training_state" where
  "apply_event EngineZeroGrad s = s\<lparr>gradients := []\<rparr>"
| "apply_event (LrSchedAdjust opt pos args) s = s\<lparr>learning_rate := Some (pos, args)\<rparr>"
| "apply_event (ScalerCall loss opt params update_grad) s =
     (if update_grad
      then s\<lparr>gradients := gradients s @ [loss],
             applied := applied s @ gradients s @ [loss],
             optimizer_steps := Suc (optimizer_steps s),
             scaler_updates := Suc (scaler_updates s)\<rparr>
      else s\<lparr>gradients := gradients s @ [loss]\<rparr>)"
| "apply_event EngineTrain s = s"
| "apply_event (ModelForward ratio l) s = s"
| "apply_event (Print l) s = s"
| "apply_event (TorchSave d p) s = s"

definition apply_events :: "event list \<Rightarrow> training_state \<Rightarrow> training_state" where
  "apply_events evs s = fold apply_event evs s"

text \<open>
  Modelled from the spec: a call of the scaler steps the optimizer exactly when its
  update flag is set.
\<close>

fun steps_optimizer :: "event \<Rightarrow> bool" where
  "steps_optimizer (ScalerCall loss opt params update_grad) = update_grad"
| "steps_optimizer ev = False"

section \<open>Example runs\<close>

text \<open>
  Concrete inputs on which the theorems below are exercised: a configuration with an
  accumulation window of two batches, three epochs and a checkpoint every second epoch;
  a loader of three batches with finite losses; and a loader whose third batch of every
  epoch after the first yields a NaN loss.
\<close>

definition example_config :: config where
  "example_config =
     \<lparr>BATCH_SIZE = 64, LEARNING_RATE = Finite 3 (-11), MINIMUM_LEARNING_RATE = Finite 0 0,
      NUM_EPOCHS = 3, WARMUP_EPOCHS = 1, ACCUM_ITER = 2, MASK_RATIO = Finite 3 (-2),
      OUTPUT_DIR = Some [''output''], CHECKPOINT_INTERVAL = 2, RESUME = False,
      RESUME_ADDRESS = '''', RESUME_START_EPOCH = 0\<rparr>"

definition example_loader :: loader where
  "example_loader = (\<lambda>e. [Finite 5 (-1), Finite 9 (-2), Finite 1 1])"

definition diverging_loader :: loader where
  "diverging_loader =
     (\<lambda>e. if e = 0 then [Finite 5 (- 1), Finite 9 (- 2), Finite 1 1]
          else [Finite 5 (- 1), Finite 9 (- 2), NaN])"

definition quiet_config :: config where
  "quiet_config = example_config\<lparr>OUTPUT_DIR := None\<rparr>"

definition resumed_config :: config where
  "resumed_config = example_config\<lparr>RESUME := True, RESUME_ADDRESS := ''output/checkpoint-1.pth'',
     RESUME_START_EPOCH := 2\<rparr>"

definition example_epoch :: "nat \<Rightarrow> epoch_log" where
  "example_epoch j = epoch_logs (main example_config example_loader id) ! j"

definition example_batch :: "nat \<Rightarrow> nat \<Rightarrow> event list" where
  "example_batch j i = snd (batch_logs (example_epoch j) ! i)"

definition diverging_epoch :: "nat \<Rightarrow> epoch_log" where
  "diverging_epoch j = epoch_logs (main example_config diverging_loader id) ! j"

definition diverging_batch :: "nat \<Rightarrow> nat \<Rightarrow> event list" where
  "diverging_batch j i = snd (batch_logs (diverging_epoch j) ! i)"

text \<open>
  The collaborators' state before anything was called, and their state in the diverging
  run just before the batch whose loss is NaN.
\<close>

definition initial_state :: training_state where
  "initial_state =
     \<lparr>learning_rate = None, optimizer_steps = 0, gradients = [], applied = [],
      scaler_updates = 0\<rparr>"

definition diverging_state_before :: training_state where
  "diverging_state_before =
     apply_events
       (events_of (diverging_epoch 0) @ begin_events (diverging_epoch 1) @
        diverging_batch 1 0 @ diverging_batch 1 1)
       initial_state"

text \<open>
  A run resumed with the start epoch configured as \<open>0\<close>, and a checkpoint loader that
  stores another epoch in the argument object it is given.
\<close>

definition rewound_config :: config where
  "rewound_config = example_config\<lparr>RESUME := True, RESUME_ADDRESS := ''output/checkpoint-0.pth'',
     RESUME_START_EPOCH := 0\<rparr>"

definition rewriting_loader :: "load_model_args \<Rightarrow> load_model_args" where
  "rewriting_loader args = args\<lparr>start_epoch := 1\<rparr>"

section \<open>The loops, step by step\<close>

lemma train_step_zero: "ACCUM_ITER cfg = 0 \<Longrightarrow> train_step cfg len e i l = ([], Some (Uncaught ZeroDivisionError))"
  by (simp add: train_step_def py_mod_def)

lemma train_step_closed:
  assumes "ACCUM_ITER cfg \<noteq> 0" and "len \<noteq> 0"
  shows "train_step cfg len e i l = (step_events cfg len e i l, if isfinite l then None else Some (SysExit 1))"
  using assms
  by (simp add: train_step_def step_events_def py_mod_def then_do_def adjust_learning_rate_def
      exit_if_infinite_loss_def scale_loss_def)

lemma train_batches_mem:
  "(j, evs) \<in> set (fst (train_batches cfg len e i ls)) \<Longrightarrow>
     i \<le> j \<and> j < i + length ls \<and> evs = fst (train_step cfg len e j (ls ! (j - i)))"
proof (induction ls arbitrary: i)
  case Nil
  then show ?case by simp
next
  case (Cons l ls)
  show ?case
  proof (cases "snd (train_step cfg len e i l)")
    case None
    then obtain ev where st: "train_step cfg len e i l = (ev, None)" by (cases "train_step cfg len e i l") auto
    obtain logs r where tb: "train_batches cfg len e (Suc i) ls = (logs, r)" by (cases "train_batches cfg len e (Suc i) ls") auto
    from Cons.prems st tb have "(j, evs) = (i, ev) \<or> (j, evs) \<in> set logs" by simp
    then show ?thesis
    proof
      assume "(j, evs) = (i, ev)"
      with st show ?thesis by simp
    next
      assume "(j, evs) \<in> set logs"
      with tb have "(j, evs) \<in> set (fst (train_batches cfg len e (Suc i) ls))" by simp
      from Cons.IH[OF this] show ?thesis by (auto simp: Suc_diff_le)
    qed
  next
    case (Some x)
    then obtain ev where st: "train_step cfg len e i l = (ev, Some x)" by (cases "train_step cfg len e i l") auto
    with Cons.prems show ?thesis by simp
  qed
qed

lemma train_batches_all_None:
  "(\<forall>j < length ls. snd (train_step cfg len e (i + j) (ls ! j)) = None) \<Longrightarrow>
   train_batches cfg len e i ls =
     (map (\<lambda>j. (i + j, fst (train_step cfg len e (i + j) (ls ! j)))) [0..<length ls], None)"
proof (induction ls arbitrary: i)
  case Nil
  then show ?case by simp
next
  case (Cons l ls)
  from Cons.prems have "snd (train_step cfg len e i l) = None" by force
  then obtain ev where st: "train_step cfg len e i l = (ev, None)"
    by (cases "train_step cfg len e i l") auto
  from Cons.prems have "\<forall>j < length ls. snd (train_step cfg len e (Suc i + j) (ls ! j)) = None"
    by force
  from Cons.IH[OF this] 
  have tb: "train_batches cfg len e (Suc i) ls =
     (map (\<lambda>j. (Suc i + j, fst (train_step cfg len e (Suc i + j) (ls ! j)))) [0..<length ls], None)" .
  have "[0..<length (l # ls)] = 0 # map Suc [0..<length ls]"
    by (simp add: upt_conv_Cons map_Suc_upt del: upt_Suc)
  then show ?case using st tb by (simp add: comp_def del: upt_Suc)
qed

lemma train_batches_stop:
  "train_batches cfg len e i ls = (logs, r) \<Longrightarrow> (j, evs) \<in> set logs \<Longrightarrow>
   snd (train_step cfg len e j (ls ! (j - i))) = Some x \<Longrightarrow>
   r = Some x \<and> last logs = (j, evs)"
proof (induction ls arbitrary: i logs)
  case Nil
  then show ?case by simp
next
  case (Cons l ls)
  show ?case
  proof (cases "snd (train_step cfg len e i l)")
    case None
    with Cons.prems(1) obtain ev logs' where tb: "train_batches cfg len e (Suc i) ls = (logs', r)"
      and logs: "logs = (i, ev) # logs'"
      by (auto split: option.splits prod.splits)
    have "j \<noteq> i" using Cons.prems(3) None by auto
    with Cons.prems(2) logs have mem: "(j, evs) \<in> set logs'" by simp
    with tb have "Suc i \<le> j" using train_batches_mem[of j evs cfg len e "Suc i" ls] by simp
    then have "j - i = Suc (j - Suc i)" by arith
    then have "(l # ls) ! (j - i) = ls ! (j - Suc i)" by simp
    with Cons.prems(3) have "snd (train_step cfg len e j (ls ! (j - Suc i))) = Some x" by simp
    from Cons.IH[OF tb mem this] logs mem show ?thesis by auto
  next
    case (Some y)
    with Cons.prems show ?thesis by (auto split: option.splits prod.splits)
  qed
qed

lemma train_batches_next:
  "train_batches cfg len e i ls = (logs, r) \<Longrightarrow> (j, evs) \<in> set logs \<Longrightarrow>
   snd (train_step cfg len e j (ls ! (j - i))) = None \<Longrightarrow> Suc j < i + length ls \<Longrightarrow>
   \<exists>evs'. (Suc j, evs') \<in> set logs"
proof (induction ls arbitrary: i logs)
  case Nil
  then show ?case by simp
next
  case (Cons l ls)
  show ?case
  proof (cases "j = i")
    case True
    with Cons.prems(4) obtain l' ls' where ls: "ls = l' # ls'" by (cases ls) auto
    from True Cons.prems(3) have "snd (train_step cfg len e i l) = None" by simp
    with Cons.prems(1) ls True show ?thesis
      by (auto split: option.splits prod.splits)
  next
    case False
    have "snd (train_step cfg len e i l) = None"
    proof (rule ccontr)
      assume "snd (train_step cfg len e i l) \<noteq> None"
      with Cons.prems(1) have "logs = [(i, fst (train_step cfg len e i l))]"
        by (auto split: option.splits prod.splits)
      with Cons.prems(2) False show False by simp
    qed
    with Cons.prems(1) obtain ev logs' where tb: "train_batches cfg len e (Suc i) ls = (logs', r)"
      and logs: "logs = (i, ev) # logs'"
      by (auto split: option.splits prod.splits)
    with Cons.prems(2) False have mem: "(j, evs) \<in> set logs'" by simp
    with tb have "Suc i \<le> j" using train_batches_mem[of j evs cfg len e "Suc i" ls] by simp
    then have "j - i = Suc (j - Suc i)" by arith
    then have "(l # ls) ! (j - i) = ls ! (j - Suc i)" by simp
    with Cons.prems(3) have "snd (train_step cfg len e j (ls ! (j - Suc i))) = None" by simp
    from Cons.IH[OF tb mem this] Cons.prems(4) logs show ?thesis by auto
  qed
qed

lemma train_epoch_index [simp]: "epoch_index (fst (train_epoch cfg ld e)) = e"
  by (simp add: train_epoch_def Let_def split: prod.splits)

lemma train_epoch_begin [simp]:
  "begin_events (fst (train_epoch cfg ld e)) = [EngineTrain, EngineZeroGrad]"
  by (simp add: train_epoch_def Let_def split: prod.splits)

lemma train_epoch_batch_logs:
  "batch_logs (fst (train_epoch cfg ld e)) = fst (train_batches cfg (length (ld e)) e 0 (ld e))"
  by (simp add: train_epoch_def Let_def split: prod.splits)

lemma train_epoch_end:
  "end_events (fst (train_epoch cfg ld e)) =
     (case snd (train_batches cfg (length (ld e)) e 0 (ld e)) of
        None \<Rightarrow> fst (checkpoint_step cfg e) | Some x \<Rightarrow> [])"
  by (auto simp add: train_epoch_def Let_def then_do_def split: prod.splits option.splits)

lemma train_epoch_snd:
  "snd (train_epoch cfg ld e) =
     (case snd (train_batches cfg (length (ld e)) e 0 (ld e)) of
        None \<Rightarrow> snd (checkpoint_step cfg e) | Some x \<Rightarrow> Some x)"
  by (auto simp add: train_epoch_def Let_def then_do_def split: prod.splits option.splits)

lemma epochs_loop_unfold:
  "epochs_loop cfg ld e = (logs, r) \<Longrightarrow>
   (\<not> e < NUM_EPOCHS cfg \<and> logs = [] \<and> r = None) \<or>
   (e < NUM_EPOCHS cfg \<and> (\<exists>x. snd (train_epoch cfg ld e) = Some x \<and> r = Some x) \<and>
      logs = [fst (train_epoch cfg ld e)]) \<or>
   (e < NUM_EPOCHS cfg \<and> snd (train_epoch cfg ld e) = None \<and>
      (\<exists>logs'. epochs_loop cfg ld (e + 1) = (logs', r) \<and> logs = fst (train_epoch cfg ld e) # logs'))"
  by (subst (asm) epochs_loop.simps) (auto split: if_splits prod.splits option.splits)

lemma epochs_loop_mem:
  "epochs_loop cfg ld e0 = (logs, r) \<Longrightarrow> elog \<in> set logs \<Longrightarrow>
   e0 \<le> epoch_index elog \<and> epoch_index elog < NUM_EPOCHS cfg \<and>
   elog = fst (train_epoch cfg ld (epoch_index elog))"
proof (induction "nat (NUM_EPOCHS cfg - e0)" arbitrary: e0 logs)
  case 0
  with epochs_loop_unfold[OF "0.prems"(1)] show ?case by auto
next
  case (Suc n)
  from epochs_loop_unfold[OF Suc.prems(1)] Suc.prems(2)
  consider "e0 < NUM_EPOCHS cfg" "elog = fst (train_epoch cfg ld e0)"
    | logs' where "e0 < NUM_EPOCHS cfg" "epochs_loop cfg ld (e0 + 1) = (logs', r)" "elog \<in> set logs'"
    by auto
  then show ?case
  proof cases
    case 1
    then show ?thesis by simp
  next
    case 2
    from Suc.hyps(2) have "n = nat (NUM_EPOCHS cfg - (e0 + 1))" by arith
    from Suc.hyps(1)[OF this 2(2) 2(3)] show ?thesis by simp
  qed
qed

lemma epochs_loop_index:
  "epochs_loop cfg ld e0 = (logs, r) \<Longrightarrow> map epoch_index logs = [e0 .. e0 + int (length logs) - 1]"
proof (induction "nat (NUM_EPOCHS cfg - e0)" arbitrary: e0 logs)
  case 0
  with epochs_loop_unfold[OF "0.prems"(1)] show ?case by auto
next
  case (Suc n)
  from epochs_loop_unfold[OF Suc.prems(1)]
  consider "logs = []" | "logs = [fst (train_epoch cfg ld e0)]"
    | logs' where "epochs_loop cfg ld (e0 + 1) = (logs', r)" "logs = fst (train_epoch cfg ld e0) # logs'"
    by auto
  then show ?case
  proof cases
    case 1
    then show ?thesis by simp
  next
    case 2
    then show ?thesis by simp
  next
    case 3
    from Suc.hyps(2) have "n = nat (NUM_EPOCHS cfg - (e0 + 1))" by arith
    from Suc.hyps(1)[OF this 3(1)] 3(2) show ?thesis
      by (simp add: upto_rec1[of e0] add.commute)
  qed
qed

lemma epochs_loop_None:
  "epochs_loop cfg ld e0 = (logs, None) \<Longrightarrow> map epoch_index logs = [e0 .. NUM_EPOCHS cfg - 1]"
proof (induction "nat (NUM_EPOCHS cfg - e0)" arbitrary: e0 logs)
  case 0
  with epochs_loop_unfold[OF "0.prems"(1)] show ?case by auto
next
  case (Suc n)
  from epochs_loop_unfold[OF Suc.prems(1)] Suc.hyps(2)
  obtain logs' where lt: "e0 < NUM_EPOCHS cfg" and rec: "epochs_loop cfg ld (e0 + 1) = (logs', None)"
    and logs: "logs = fst (train_epoch cfg ld e0) # logs'"
    by auto
  from Suc.hyps(2) have "n = nat (NUM_EPOCHS cfg - (e0 + 1))" by arith
  from Suc.hyps(1)[OF this rec] logs lt show ?case
    by (simp add: upto_rec1[of e0])
qed

lemma epochs_loop_stop:
  "epochs_loop cfg ld e0 = (logs, r) \<Longrightarrow> elog \<in> set logs \<Longrightarrow>
   snd (train_epoch cfg ld (epoch_index elog)) = Some x \<Longrightarrow> r = Some x \<and> last logs = elog"
proof (induction "nat (NUM_EPOCHS cfg - e0)" arbitrary: e0 logs)
  case 0
  with epochs_loop_unfold[OF "0.prems"(1)] show ?case by auto
next
  case (Suc n)
  from epochs_loop_unfold[OF Suc.prems(1)] Suc.prems(2)
  consider y where "snd (train_epoch cfg ld e0) = Some y" "r = Some y" "logs = [fst (train_epoch cfg ld e0)]"
    | logs' where "snd (train_epoch cfg ld e0) = None" "epochs_loop cfg ld (e0 + 1) = (logs', r)"
        "logs = fst (train_epoch cfg ld e0) # logs'"
    by auto
  then show ?case
  proof cases
    case 1
    with Suc.prems(2,3) show ?thesis by simp
  next
    case 2
    have "elog \<noteq> fst (train_epoch cfg ld e0)"
      using 2(1) Suc.prems(3) by auto
    with Suc.prems(2) 2(3) have mem: "elog \<in> set logs'" by simp
    from Suc.hyps(2) have "n = nat (NUM_EPOCHS cfg - (e0 + 1))" by arith
    from Suc.hyps(1)[OF this 2(2) mem Suc.prems(3)] 2(3) mem show ?thesis by auto
  qed
qed

lemma epochs_loop_next:
  "epochs_loop cfg ld e0 = (logs, r) \<Longrightarrow> elog \<in> set logs \<Longrightarrow>
   snd (train_epoch cfg ld (epoch_index elog)) = None \<Longrightarrow> epoch_index elog + 1 < NUM_EPOCHS cfg \<Longrightarrow>
   \<exists>elog' \<in> set logs. epoch_index elog' = epoch_index elog + 1"
proof (induction "nat (NUM_EPOCHS cfg - e0)" arbitrary: e0 logs)
  case 0
  with epochs_loop_unfold[OF "0.prems"(1)] show ?case by auto
next
  case (Suc n)
  from Suc.hyps(2) have n: "n = nat (NUM_EPOCHS cfg - (e0 + 1))" by arith
  from epochs_loop_unfold[OF Suc.prems(1)] Suc.prems(2)
  consider y where "snd (train_epoch cfg ld e0) = Some y" "logs = [fst (train_epoch cfg ld e0)]"
    | logs' where "snd (train_epoch cfg ld e0) = None" "epochs_loop cfg ld (e0 + 1) = (logs', r)"
        "logs = fst (train_epoch cfg ld e0) # logs'"
    by auto
  then show ?case
  proof cases
    case 1
    with Suc.prems(2,3) show ?thesis by simp
  next
    case 2
    show ?thesis
    proof (cases "elog \<in> set logs'")
      case True
      from Suc.hyps(1)[OF n 2(2) True Suc.prems(3,4)] 2(3) show ?thesis by auto
    next
      case False
      with Suc.prems(2) 2(3) have el: "elog = fst (train_epoch cfg ld e0)" by simp
      then have idx: "epoch_index elog = e0" by simp
      with Suc.prems(4) have "e0 + 1 < NUM_EPOCHS cfg" by simp
      with epochs_loop_unfold[OF 2(2)] have "fst (train_epoch cfg ld (e0 + 1)) \<in> set logs'"
        by auto
      moreover have "epoch_index (fst (train_epoch cfg ld (e0 + 1))) = epoch_index elog + 1"
        using idx by simp
      ultimately show ?thesis using 2(3) by (intro bexI[of _ "fst (train_epoch cfg ld (e0 + 1))"]) auto
    qed
  qed
qed

lemma train_batches_last_None:
  "train_batches cfg len e i ls = (logs, r) \<Longrightarrow> (j, evs) \<in> set logs \<Longrightarrow>
   snd (train_step cfg len e j (ls ! (j - i))) = None \<Longrightarrow> Suc j = i + length ls \<Longrightarrow> r = None"
proof (induction ls arbitrary: i logs)
  case Nil
  then show ?case by simp
next
  case (Cons l ls)
  show ?case
  proof (cases "j = i")
    case True
    with Cons.prems(4) have ls: "ls = []" by simp
    from True Cons.prems(3) have "snd (train_step cfg len e i l) = None" by simp
    with Cons.prems(1) ls show ?thesis by (auto split: option.splits prod.splits)
  next
    case False
    have "snd (train_step cfg len e i l) = None"
    proof (rule ccontr)
      assume "snd (train_step cfg len e i l) \<noteq> None"
      with Cons.prems(1) have "logs = [(i, fst (train_step cfg len e i l))]"
        by (auto split: option.splits prod.splits)
      with Cons.prems(2) False show False by simp
    qed
    with Cons.prems(1) obtain ev logs' where tb: "train_batches cfg len e (Suc i) ls = (logs', r)"
      and logs: "logs = (i, ev) # logs'"
      by (auto split: option.splits prod.splits)
    with Cons.prems(2) False have mem: "(j, evs) \<in> set logs'" by simp
    with tb have "Suc i \<le> j" using train_batches_mem[of j evs cfg len e "Suc i" ls] by simp
    then have "j - i = Suc (j - Suc i)" by arith
    then have "(l # ls) ! (j - i) = ls ! (j - Suc i)" by simp
    with Cons.prems(3) have "snd (train_step cfg len e j (ls ! (j - Suc i))) = None" by simp
    from Cons.IH[OF tb mem this] Cons.prems(4) show ?thesis by simp
  qed
qed

lemma train_batches_finite:
  assumes "\<forall>l \<in> set ls. isfinite l" and "ACCUM_ITER cfg \<noteq> 0"
  shows "train_batches cfg (length ls) e 0 ls =
           (map (\<lambda>j. (j, step_events cfg (length ls) e j (ls ! j))) [0..<length ls], None)"
proof (cases "ls = []")
  case True
  then show ?thesis by simp
next
  case False
  then have len: "length ls \<noteq> 0" by simp
  have "\<forall>j < length ls. snd (train_step cfg (length ls) e (0 + j) (ls ! j)) = None"
    using assms(1) by (simp add: train_step_closed[OF assms(2) len])
  from train_batches_all_None[OF this] show ?thesis
    by (simp add: train_step_closed[OF assms(2) len])
qed

lemma train_batches_done:
  assumes "\<forall>l \<in> set ls. isfinite l" and "ACCUM_ITER cfg \<noteq> 0 \<or> ls = []"
  shows "snd (train_batches cfg (length ls) e 0 ls) = None"
  using assms train_batches_finite[of ls cfg e] by (cases "ls = []") auto

lemma checkpoint_step_events:
  "fst (checkpoint_step cfg e) =
     (case OUTPUT_DIR cfg of
        None \<Rightarrow> []
      | Some dir \<Rightarrow>
          if CHECKPOINT_INTERVAL cfg \<noteq> 0 \<and> (e mod CHECKPOINT_INTERVAL cfg = 0 \<or> e + 1 = NUM_EPOCHS cfg)
          then [save_model EngineModel dir e cfg EngineOptimizer LossScaler] else [])"
  by (simp add: checkpoint_step_def py_mod_def split: option.splits)

lemma checkpoint_step_exit:
  "snd (checkpoint_step cfg e) =
     (if OUTPUT_DIR cfg \<noteq> None \<and> CHECKPOINT_INTERVAL cfg = 0
      then Some (Uncaught ZeroDivisionError) else None)"
  by (auto simp add: checkpoint_step_def py_mod_def split: option.splits)

lemma epochs_loop_progress:
  "(\<And>e. snd (train_epoch cfg ld e) = None) \<Longrightarrow> snd (epochs_loop cfg ld e0) = None"
proof (induction "nat (NUM_EPOCHS cfg - e0)" arbitrary: e0)
  case 0
  then show ?case by (subst epochs_loop.simps) simp
next
  case (Suc n)
  from Suc.hyps(2) have n: "n = nat (NUM_EPOCHS cfg - (e0 + 1))" and lt: "e0 < NUM_EPOCHS cfg"
    by arith+
  from Suc.hyps(1)[OF n Suc.prems] Suc.prems[of e0] lt show ?case
    by (subst epochs_loop.simps) (auto split: prod.splits option.splits)
qed

section \<open>The run of \<^verbatim>\<open>main\<close>\<close>

lemma main_epoch_logs:
  "epoch_logs (main cfg ld lm) =
     fst (epochs_loop cfg ld (if RESUME cfg then snd (resume_model lm cfg) else 0))"
  by (simp add: main_def Let_def split: prod.splits)

lemma main_stopped:
  "stopped (main cfg ld lm) =
     snd (epochs_loop cfg ld (if RESUME cfg then snd (resume_model lm cfg) else 0))"
  by (simp add: main_def Let_def split: prod.splits)

lemma main_epoch_log:
  assumes "elog \<in> set (epoch_logs (main cfg ld lm))"
  shows "elog = fst (train_epoch cfg ld (epoch_index elog))"
  using assms epochs_loop_mem[of cfg ld _ "epoch_logs (main cfg ld lm)" _ elog]
  by (simp add: main_epoch_logs) (metis prod.collapse)

lemma main_batch_log:
  assumes "elog \<in> set (epoch_logs (main cfg ld lm))" and "(i, evs) \<in> set (batch_logs elog)"
  shows "i < length (ld (epoch_index elog)) \<and>
         evs = fst (train_step cfg (length (ld (epoch_index elog))) (epoch_index elog) i
                     (ld (epoch_index elog) ! i))"
proof -
  let ?e = "epoch_index elog"
  have "batch_logs elog = fst (train_batches cfg (length (ld ?e)) ?e 0 (ld ?e))"
    using main_epoch_log[OF assms(1)] train_epoch_batch_logs[of cfg ld ?e] by simp
  with assms(2) train_batches_mem[of i evs cfg "length (ld ?e)" ?e 0 "ld ?e"]
  show ?thesis by simp
qed

lemma main_batch_events:
  assumes "elog \<in> set (epoch_logs (main cfg ld lm))" and "(i, evs) \<in> set (batch_logs elog)"
    and "ACCUM_ITER cfg \<noteq> 0"
  shows "evs = step_events cfg (length (ld (epoch_index elog))) (epoch_index elog) i
                 (ld (epoch_index elog) ! i)"
proof -
  from main_batch_log[OF assms(1,2)] have "length (ld (epoch_index elog)) \<noteq> 0" by auto
  with main_batch_log[OF assms(1,2)] train_step_closed[OF assms(3) this] show ?thesis by simp
qed

lemma main_end_events:
  assumes "elog \<in> set (epoch_logs (main cfg ld lm))"
  shows "end_events elog =
     (case snd (train_batches cfg (length (ld (epoch_index elog))) (epoch_index elog) 0
                  (ld (epoch_index elog))) of
        None \<Rightarrow> fst (checkpoint_step cfg (epoch_index elog)) | Some x \<Rightarrow> [])"
  using main_epoch_log[OF assms] train_epoch_end[of cfg ld "epoch_index elog"] by simp

lemma main_begin_events:
  assumes "elog \<in> set (epoch_logs (main cfg ld lm))"
  shows "begin_events elog = [EngineTrain, EngineZeroGrad]"
  using main_epoch_log[OF assms] train_epoch_begin[of cfg ld "epoch_index elog"] by simp

lemma end_events_cases:
  assumes "elog \<in> set (epoch_logs (main cfg ld lm))"
  shows "end_events elog = [] \<or>
         (\<exists>dir. OUTPUT_DIR cfg = Some dir \<and>
            end_events elog = [save_model EngineModel dir (epoch_index elog) cfg EngineOptimizer LossScaler])"
  unfolding main_end_events[OF assms] checkpoint_step_events
  by (simp split: option.splits)

lemma step_events_no_save: "filter is_torch_save (step_events cfg len e i l) = []"
  by (simp add: step_events_def)

lemma batch_log_no_save:
  assumes "elog \<in> set (epoch_logs (main cfg ld lm))" and "(i, evs) \<in> set (batch_logs elog)"
  shows "filter is_torch_save evs = []"
proof (cases "ACCUM_ITER cfg = 0")
  case True
  with main_batch_log[OF assms] show ?thesis by (simp add: train_step_zero)
next
  case False
  from main_batch_events[OF assms False] show ?thesis by (simp add: step_events_no_save)
qed

lemma batches_no_save:
  assumes "elog \<in> set (epoch_logs (main cfg ld lm))"
  shows "filter is_torch_save (begin_events elog @ concat (map snd (batch_logs elog))) = []"
proof -
  have "\<forall>evs \<in> set (map snd (batch_logs elog)). filter is_torch_save evs = []"
    using batch_log_no_save[OF assms] by auto
  then have "filter is_torch_save (concat (map snd (batch_logs elog))) = []"
    by (induction "map snd (batch_logs elog)" arbitrary: elog) (auto simp: filter_concat)
  then show ?thesis by (simp add: main_begin_events[OF assms])
qed

lemma forward_in_batch_log:
  assumes "elog \<in> set (epoch_logs (main cfg ld lm))" and "(i, evs) \<in> set (batch_logs elog)"
    and "ModelForward m l \<in> set evs"
  shows "ACCUM_ITER cfg \<noteq> 0 \<and> l = ld (epoch_index elog) ! i \<and> m = MASK_RATIO cfg"
proof -
  have k: "ACCUM_ITER cfg \<noteq> 0"
  proof
    assume "ACCUM_ITER cfg = 0"
    with main_batch_log[OF assms(1,2)] have "evs = []" by (simp add: train_step_zero)
    with assms(3) show False by simp
  qed
  from assms(3) main_batch_events[OF assms(1,2) k] show ?thesis
    by (auto simp: k step_events_def split: if_splits)
qed

lemma main_progress:
  assumes "\<And>e l. l \<in> set (ld e) \<Longrightarrow> isfinite l" and "ACCUM_ITER cfg \<noteq> 0"
    and "OUTPUT_DIR cfg = None \<or> CHECKPOINT_INTERVAL cfg \<noteq> 0"
  shows "stopped (main cfg ld lm) = None"
proof -
  have "snd (train_epoch cfg ld e) = None" for e
    using assms train_batches_done[of "ld e" cfg e]
    by (auto simp add: train_epoch_snd checkpoint_step_exit)
  from epochs_loop_progress[OF this] show ?thesis by (simp add: main_stopped)
qed

lemma non_finite_stops:
  assumes "elog \<in> set (epoch_logs (main cfg ld lm))" and "(i, evs) \<in> set (batch_logs elog)"
    and "ModelForward m l \<in> set evs" and "\<not> isfinite l"
  shows "stopped (main cfg ld lm) = Some (SysExit 1) \<and>
         last (epoch_logs (main cfg ld lm)) = elog \<and>
         last (batch_logs elog) = (i, evs) \<and>
         end_events elog = []"
proof -
  let ?e = "epoch_index elog"
  let ?n = "length (ld ?e)"
  let ?r = "if RESUME cfg then snd (resume_model lm cfg) else 0"
  from forward_in_batch_log[OF assms(1-3)] have k: "ACCUM_ITER cfg \<noteq> 0" and l: "l = ld ?e ! i"
    by auto
  from main_batch_log[OF assms(1,2)] have "i < ?n" by simp
  then have n: "?n \<noteq> 0" by auto
  have bl: "batch_logs elog = fst (train_batches cfg ?n ?e 0 (ld ?e))"
    using main_epoch_log[OF assms(1)] train_epoch_batch_logs[of cfg ld ?e] by simp
  obtain logs r where tb: "train_batches cfg ?n ?e 0 (ld ?e) = (logs, r)"
    by (cases "train_batches cfg ?n ?e 0 (ld ?e)") auto
  with bl assms(2) have mem: "(i, evs) \<in> set logs" by simp
  have some: "snd (train_step cfg ?n ?e i (ld ?e ! (i - 0))) = Some (SysExit 1)"
    using assms(4) by (simp add: train_step_closed[OF k n] l)
  obtain elogs x where el: "epochs_loop cfg ld ?r = (elogs, x)"
    by (cases "epochs_loop cfg ld ?r") auto
  then have elogs: "epoch_logs (main cfg ld lm) = elogs" and x: "stopped (main cfg ld lm) = x"
    by (simp_all add: main_epoch_logs main_stopped)
  from train_batches_stop[OF tb mem some] have r: "r = Some (SysExit 1)"
    and lastb: "last logs = (i, evs)" by auto
  from r tb have te: "snd (train_epoch cfg ld ?e) = Some (SysExit 1)"
    by (simp add: train_epoch_snd)
  from epochs_loop_stop[OF el _ te] assms(1) elogs
  have "x = Some (SysExit 1)" and "last elogs = elog" by auto
  moreover have "end_events elog = []"
    using r tb by (simp add: main_end_events[OF assms(1)])
  ultimately show ?thesis using elogs x lastb bl tb by simp
qed

section \<open>The collaborators' state along a run\<close>

lemma apply_events_append [simp]:
  "apply_events (xs @ ys) s = apply_events ys (apply_events xs s)"
  by (simp add: apply_events_def)

lemma apply_events_Nil [simp]: "apply_events [] s = s"
  by (simp add: apply_events_def)

lemma apply_events_Cons [simp]: "apply_events (x # xs) s = apply_events xs (apply_event x s)"
  by (simp add: apply_events_def)

lemma mod_int_nat:
  assumes "0 < k"
  shows "(int j + 1) mod k = 0 \<longleftrightarrow> Suc j mod nat k = 0"
proof -
  have "int (Suc j mod nat k) = (int j + 1) mod k"
    using assms by (simp add: zmod_int add.commute)
  then show ?thesis by (metis of_nat_eq_0_iff)
qed

lemma apply_step_events:
  assumes "isfinite l"
  shows "gradients (apply_events (step_events cfg n e j l) s) =
           (if (int j + 1) mod ACCUM_ITER cfg = 0 then []
            else gradients s @ [TrueDiv (Loss l) (ACCUM_ITER cfg)]) \<and>
         applied (apply_events (step_events cfg n e j l) s) =
           (if (int j + 1) mod ACCUM_ITER cfg = 0
            then applied s @ gradients s @ [TrueDiv (Loss l) (ACCUM_ITER cfg)]
            else applied s) \<and>
         optimizer_steps (apply_events (step_events cfg n e j l) s) =
           (if (int j + 1) mod ACCUM_ITER cfg = 0 then Suc (optimizer_steps s)
            else optimizer_steps s)"
  using assms by (simp add: step_events_def)

lemma apply_batches_prefix:
  assumes "0 < ACCUM_ITER cfg" and "\<forall>l \<in> set ls. isfinite l" and "gradients s = []"
    and "m \<le> length ls"
  shows "optimizer_steps
           (apply_events (concat (map (\<lambda>j. step_events cfg n e j (ls ! j)) [0..<m])) s) =
           optimizer_steps s + m div nat (ACCUM_ITER cfg) \<and>
         applied (apply_events (concat (map (\<lambda>j. step_events cfg n e j (ls ! j)) [0..<m])) s) =
           applied s @ map (\<lambda>l. TrueDiv (Loss l) (ACCUM_ITER cfg))
                         (take (m div nat (ACCUM_ITER cfg) * nat (ACCUM_ITER cfg)) ls) \<and>
         gradients (apply_events (concat (map (\<lambda>j. step_events cfg n e j (ls ! j)) [0..<m])) s) =
           map (\<lambda>l. TrueDiv (Loss l) (ACCUM_ITER cfg))
             (drop (m div nat (ACCUM_ITER cfg) * nat (ACCUM_ITER cfg)) (take m ls))"
  using assms(4)
proof (induction m)
  case 0
  then show ?case using assms(3) by simp
next
  case (Suc m)
  let ?K = "nat (ACCUM_ITER cfg)"
  let ?sc = "\<lambda>l. TrueDiv (Loss l) (ACCUM_ITER cfg)"
  let ?s = "apply_events (concat (map (\<lambda>j. step_events cfg n e j (ls ! j)) [0..<m])) s"
  let ?a = "m div ?K * ?K"
  from Suc.prems have m: "m < length ls" by simp
  then have fin: "isfinite (ls ! m)" using assms(2) by simp
  from Suc.IH m have steps: "optimizer_steps ?s = optimizer_steps s + m div ?K"
    and app: "applied ?s = applied s @ map ?sc (take ?a ls)"
    and gr: "gradients ?s = map ?sc (drop ?a (take m ls))"
    by simp_all
  have a: "?a \<le> m" by simp
  have split: "apply_events (concat (map (\<lambda>j. step_events cfg n e j (ls ! j)) [0..<Suc m])) s =
               apply_events (step_events cfg n e m (ls ! m)) ?s"
    by simp
  note st = apply_step_events[OF fin, of cfg n e m ?s]
  have tk: "take (Suc m) ls = take m ls @ [ls ! m]"
    using m by (simp add: take_Suc_conv_app_nth)
  show ?case
  proof (cases "Suc m mod ?K = 0")
    case True
    then have c: "(int m + 1) mod ACCUM_ITER cfg = 0" using mod_int_nat[OF assms(1)] by simp
    from True have d: "Suc m div ?K = Suc (m div ?K)" by (simp add: div_Suc)
    from True have full: "Suc m div ?K * ?K = Suc m" by (simp add: mod_0_imp_dvd)
    have "take ?a (take m ls) = take ?a ls" using a by (simp add: min_def)
    moreover have "take ?a (take m ls) @ drop ?a (take m ls) = take m ls"
      by (rule append_take_drop_id)
    ultimately have "take ?a ls @ drop ?a (take m ls) = take m ls" by (simp only:)
    from arg_cong[OF this, of "map ?sc"]
    have "map ?sc (take ?a ls) @ map ?sc (drop ?a (take m ls)) = map ?sc (take m ls)"
      by (simp only: map_append)
    then have "map ?sc (take ?a ls) @ map ?sc (drop ?a (take m ls)) @ [?sc (ls ! m)] =
               map ?sc (take (Suc m) ls)"
      unfolding tk by simp
    with st c steps app gr d full show ?thesis
      unfolding split by simp
  next
    case False
    then have c: "(int m + 1) mod ACCUM_ITER cfg \<noteq> 0" using mod_int_nat[OF assms(1)] by simp
    from False have d: "Suc m div ?K = m div ?K" by (simp add: div_Suc)
    have "drop ?a (take (Suc m) ls) = drop ?a (take m ls) @ [ls ! m]"
      unfolding tk using a m by simp
    with st c steps app gr d show ?thesis
      unfolding split by simp
  qed
qed

lemma optimizer_steps_count:
  "optimizer_steps (apply_events evs s) = optimizer_steps s + length (filter steps_optimizer evs)"
proof (induction evs arbitrary: s)
  case Nil
  then show ?case by simp
next
  case (Cons ev evs)
  show ?case by (cases ev) (simp_all add: Cons.IH)
qed

lemma main_batch_logs_finite:
  assumes "elog \<in> set (epoch_logs (main cfg ld lm))" and "ACCUM_ITER cfg \<noteq> 0"
    and "\<forall>l \<in> set (ld (epoch_index elog)). isfinite l"
  shows "batch_logs elog =
           map (\<lambda>j. (j, step_events cfg (length (ld (epoch_index elog))) (epoch_index elog) j
                          (ld (epoch_index elog) ! j)))
             [0..<length (ld (epoch_index elog))]"
  using main_epoch_log[OF assms(1)] train_epoch_batch_logs[of cfg ld "epoch_index elog"]
    train_batches_finite[OF assms(3,2), of "epoch_index elog"]
  by simp

lemma apply_end_events:
  assumes "elog \<in> set (epoch_logs (main cfg ld lm))"
  shows "apply_events (end_events elog) s = s"
  using end_events_cases[OF assms] by (auto simp: save_model_def Let_def)

lemma last_window_no_step:
  assumes "0 < K" and "n div K * K \<le> i" and "i < n"
  shows "Suc i mod K \<noteq> 0"
proof
  assume "Suc i mod K = 0"
  then have "Suc i = Suc i div K * K" by (simp add: mod_0_imp_dvd)
  moreover have "Suc i div K \<le> n div K" using assms(3) by (simp add: div_le_mono)
  then have "Suc i div K * K \<le> n div K * K" by simp
  ultimately show False using assms(2) by simp
qed

section \<open>The example runs, evaluated\<close>

lemma example_run_eval:
  "main example_config example_loader id =
     \<lparr>resumed = None,
      epoch_logs =
        [\<lparr>epoch_index = 0, begin_events = [EngineTrain, EngineZeroGrad],
          batch_logs =
            [(0, step_events example_config 3 0 0 (Finite 5 (- 1))),
             (1, step_events example_config 3 0 1 (Finite 9 (- 2))),
             (2, step_events example_config 3 0 2 (Finite 1 1))],
          end_events =
            [save_model EngineModel [''output''] 0 example_config EngineOptimizer LossScaler]\<rparr>,
         \<lparr>epoch_index = 1, begin_events = [EngineTrain, EngineZeroGrad],
          batch_logs =
            [(0, step_events example_config 3 1 0 (Finite 5 (- 1))),
             (1, step_events example_config 3 1 1 (Finite 9 (- 2))),
             (2, step_events example_config 3 1 2 (Finite 1 1))],
          end_events = []\<rparr>,
         \<lparr>epoch_index = 2, begin_events = [EngineTrain, EngineZeroGrad],
          batch_logs =
            [(0, step_events example_config 3 2 0 (Finite 5 (- 1))),
             (1, step_events example_config 3 2 1 (Finite 9 (- 2))),
             (2, step_events example_config 3 2 2 (Finite 1 1))],
          end_events =
            [save_model EngineModel [''output''] 2 example_config EngineOptimizer LossScaler]\<rparr>],
      stopped = None\<rparr>"
  by code_simp

lemma diverging_run_eval:
  "main example_config diverging_loader id =
     \<lparr>resumed = None,
      epoch_logs =
        [\<lparr>epoch_index = 0, begin_events = [EngineTrain, EngineZeroGrad],
          batch_logs =
            [(0, step_events example_config 3 0 0 (Finite 5 (- 1))),
             (1, step_events example_config 3 0 1 (Finite 9 (- 2))),
             (2, step_events example_config 3 0 2 (Finite 1 1))],
          end_events =
            [save_model EngineModel [''output''] 0 example_config EngineOptimizer LossScaler]\<rparr>,
         \<lparr>epoch_index = 1, begin_events = [EngineTrain, EngineZeroGrad],
          batch_logs =
            [(0, step_events example_config 3 1 0 (Finite 5 (- 1))),
             (1, step_events example_config 3 1 1 (Finite 9 (- 2))),
             (2, step_events example_config 3 1 2 NaN)],
          end_events = []\<rparr>],
      stopped = Some (SysExit 1)\<rparr>"
  by code_simp

lemmas example_simps =
  example_epoch_def example_batch_def example_run_eval
  diverging_epoch_def diverging_batch_def diverging_run_eval

lemma example_config_simps [simp]:
  "ACCUM_ITER example_config = 2" "NUM_EPOCHS example_config = 3"
  "CHECKPOINT_INTERVAL example_config = 2" "OUTPUT_DIR example_config = Some [''output'']"
  "RESUME example_config = False" "MASK_RATIO example_config = Finite 3 (- 2)"
  "LEARNING_RATE example_config = Finite 3 (- 11)"
  "MINIMUM_LEARNING_RATE example_config = Finite 0 0" "WARMUP_EPOCHS example_config = 1"
  by (simp_all add: example_config_def)

lemma example_members:
  "example_epoch 0 \<in> set (epoch_logs (main example_config example_loader id))"
  "example_epoch 1 \<in> set (epoch_logs (main example_config example_loader id))"
  "example_epoch 2 \<in> set (epoch_logs (main example_config example_loader id))"
  "(0, example_batch 0 0) \<in> set (batch_logs (example_epoch 0))"
  "(1, example_batch 0 1) \<in> set (batch_logs (example_epoch 0))"
  "(2, example_batch 0 2) \<in> set (batch_logs (example_epoch 0))"
  "epoch_index (example_epoch 0) = 0"
  "epoch_index (example_epoch 1) = 1"
  "epoch_index (example_epoch 2) = 2"
  by (simp_all add: example_simps)

lemma diverging_members:
  "diverging_epoch 1 \<in> set (epoch_logs (main example_config diverging_loader id))"
  "(0, diverging_batch 1 0) \<in> set (batch_logs (diverging_epoch 1))"
  "(2, diverging_batch 1 2) \<in> set (batch_logs (diverging_epoch 1))"
  "epoch_index (diverging_epoch 1) = 1"
  by (simp_all add: example_simps)

lemma quiet_run:
  "hd (epoch_logs (main quiet_config example_loader id)) \<in>
     set (epoch_logs (main quiet_config example_loader id))"
  by code_simp

lemma resumed_run:
  "map epoch_index (epoch_logs (main resumed_config example_loader id)) = [2]"
  "stopped (main resumed_config example_loader id) = None"
  by code_simp+

lemma rewound_run:
  "map epoch_index (epoch_logs (main rewound_config example_loader rewriting_loader)) = [1, 2]"
  "stopped (main rewound_config example_loader rewriting_loader) = None"
  "snd (resume_model rewriting_loader rewound_config) = 1"
  by code_simp+

section \<open>Properties of the data-loader factory\<close>

text \<open>
  C8: in the data-loader factory both the train dataloader and the test dataloader are
  built from the training dataset, the one loaded from \<open>DATAPATH/train\<close> with the
  training transform; the dataset loaded from \<open>DATAPATH/val\<close> is the dataset of
  neither dataloader.
\<close>

theorem pretrain_dataloaders_both_from_train:
  "dataset (fst (pretrain_dataloaders cfg datapath transform_train transform_val)) =
     load_imgfolder (joinpath datapath ''train'') transform_train \<and>
   dataset (snd (pretrain_dataloaders cfg datapath transform_train transform_val)) =
     load_imgfolder (joinpath datapath ''train'') transform_train \<and>
   load_imgfolder (joinpath datapath ''val'') transform_val \<notin>
     {dataset (fst (pretrain_dataloaders cfg datapath transform_train transform_val)),
      dataset (snd (pretrain_dataloaders cfg datapath transform_train transform_val))}"
  by (simp add: pretrain_dataloaders_def Let_def get_dataloader_def load_imgfolder_def
      joinpath_def)

section \<open>Loss scaling and the update flag\<close>

text \<open>
  C1: for every batch index \<open>i\<close> reached in an epoch (with \<open>ACCUM_ITER\<close> not zero), the
  loop calls the loss scaler exactly once when the loss is finite, with the batch loss
  divided by \<open>ACCUM_ITER\<close> and with the update flag set if and only if
  \<open>(i + 1) mod ACCUM_ITER = 0\<close>; it does not call it when the loss is not finite. On an
  iteration where \<open>(i + 1) mod ACCUM_ITER\<close> is not zero no call steps the optimizer.
\<close>

theorem scaler_call_of_each_batch:
  assumes "elog \<in> set (epoch_logs (main cfg ld lm))" and "(i, evs) \<in> set (batch_logs elog)"
    and "ACCUM_ITER cfg \<noteq> 0"
  shows "filter is_scaler_call evs =
           (if isfinite (ld (epoch_index elog) ! i)
            then [ScalerCall (TrueDiv (Loss (ld (epoch_index elog) ! i)) (ACCUM_ITER cfg))
                    EngineOptimizer EngineModel ((int i + 1) mod ACCUM_ITER cfg = 0)]
            else []) \<and>
         ((int i + 1) mod ACCUM_ITER cfg \<noteq> 0 \<longrightarrow> (\<forall>ev \<in> set evs. \<not> steps_optimizer ev))"
  unfolding main_batch_events[OF assms]
  by (simp add: step_events_def)

theorem scaler_call_of_each_batch_witness:
  "example_epoch 0 \<in> set (epoch_logs (main example_config example_loader id)) \<and>
   (1, example_batch 0 1) \<in> set (batch_logs (example_epoch 0)) \<and>
   ACCUM_ITER example_config \<noteq> 0 \<and>
   filter is_scaler_call (example_batch 0 1) =
     [ScalerCall (TrueDiv (Loss (Finite 9 (- 2))) 2) EngineOptimizer EngineModel True] \<and>
   (0, example_batch 0 0) \<in> set (batch_logs (example_epoch 0)) \<and>
   filter is_scaler_call (example_batch 0 0) =
     [ScalerCall (TrueDiv (Loss (Finite 5 (- 1))) 2) EngineOptimizer EngineModel False] \<and>
   list_all (\<lambda>ev. \<not> steps_optimizer ev) (example_batch 0 0)"
proof -
  have h1: "example_epoch 0 \<in> set (epoch_logs (main example_config example_loader id))"
    by (simp add: example_simps)
  have h2: "(1, example_batch 0 1) \<in> set (batch_logs (example_epoch 0))"
    by (simp add: example_simps)
  have h2': "(0, example_batch 0 0) \<in> set (batch_logs (example_epoch 0))"
    by (simp add: example_simps)
  have h3: "ACCUM_ITER example_config \<noteq> 0" by simp
  have e: "epoch_index (example_epoch 0) = 0" by (simp add: example_simps)
  from scaler_call_of_each_batch[OF h1 h2 h3] scaler_call_of_each_batch[OF h1 h2' h3]
  show ?thesis using h1 h2 h2' h3 by (simp add: e example_loader_def list_all_iff)
qed

section \<open>Where zero-grad is called\<close>

text \<open>
  C2: in every epoch of every run, zero-grad is called at the start of the epoch (right
  after \<^verbatim>\<open>engine.train()\<close>), not among the calls at the end of the epoch, and in the
  iteration of batch \<open>i\<close> exactly when that batch completes an accumulation window
  (\<open>(i + 1) mod ACCUM_ITER = 0\<close>, the loss being finite): there it is the last call,
  immediately after the scaler call that carries the update flag, and it occurs nowhere
  earlier in that iteration. In every other iteration it is not called.
\<close>

theorem zero_grad_placement:
  assumes "elog \<in> set (epoch_logs (main cfg ld lm))"
  shows "begin_events elog = [EngineTrain, EngineZeroGrad] \<and>
         EngineZeroGrad \<notin> set (end_events elog) \<and>
         (\<forall>(i, evs) \<in> set (batch_logs elog).
            if ACCUM_ITER cfg \<noteq> 0 \<and> isfinite (ld (epoch_index elog) ! i) \<and>
               (int i + 1) mod ACCUM_ITER cfg = 0
            then \<exists>pre t. evs = pre @ [ScalerCall t EngineOptimizer EngineModel True, EngineZeroGrad] \<and>
                   EngineZeroGrad \<notin> set pre
            else EngineZeroGrad \<notin> set evs)"
proof (intro conjI)
  show "begin_events elog = [EngineTrain, EngineZeroGrad]" by (rule main_begin_events[OF assms])
  show "EngineZeroGrad \<notin> set (end_events elog)"
    using end_events_cases[OF assms] by (auto simp: save_model_def Let_def)
  show "\<forall>(i, evs) \<in> set (batch_logs elog).
            if ACCUM_ITER cfg \<noteq> 0 \<and> isfinite (ld (epoch_index elog) ! i) \<and>
               (int i + 1) mod ACCUM_ITER cfg = 0
            then \<exists>pre t. evs = pre @ [ScalerCall t EngineOptimizer EngineModel True, EngineZeroGrad] \<and>
                   EngineZeroGrad \<notin> set pre
            else EngineZeroGrad \<notin> set evs"
  proof (clarify)
    fix i evs
    assume mem: "(i, evs) \<in> set (batch_logs elog)"
    let ?e = "epoch_index elog"
    show "if ACCUM_ITER cfg \<noteq> 0 \<and> isfinite (ld ?e ! i) \<and> (int i + 1) mod ACCUM_ITER cfg = 0
          then \<exists>pre t. evs = pre @ [ScalerCall t EngineOptimizer EngineModel True, EngineZeroGrad] \<and>
                 EngineZeroGrad \<notin> set pre
          else EngineZeroGrad \<notin> set evs"
    proof (cases "ACCUM_ITER cfg = 0")
      case True
      with main_batch_log[OF assms mem] have "evs = []" by (simp add: train_step_zero)
      with True show ?thesis by simp
    next
      case False
      note ev = main_batch_events[OF assms mem False]
      show ?thesis
      proof (cases "isfinite (ld ?e ! i) \<and> (int i + 1) mod ACCUM_ITER cfg = 0")
        case True
        let ?pre = "(if int i mod ACCUM_ITER cfg = 0
          then [LrSchedAdjust EngineOptimizer (EpochPosition i (length (ld ?e)) ?e)
               \<lparr>lr = LEARNING_RATE cfg, min_lr = MINIMUM_LEARNING_RATE cfg,
                epochs = NUM_EPOCHS cfg, warmup_epochs = WARMUP_EPOCHS cfg\<rparr>]
          else []) @ [ModelForward (MASK_RATIO cfg) (ld ?e ! i)]"
        have "evs = ?pre @ [ScalerCall (TrueDiv (Loss (ld ?e ! i)) (ACCUM_ITER cfg))
                 EngineOptimizer EngineModel True, EngineZeroGrad]"
          using True by (simp add: ev step_events_def)
        moreover have "EngineZeroGrad \<notin> set ?pre" by simp
        ultimately have "\<exists>pre t. evs = pre @ [ScalerCall t EngineOptimizer EngineModel True, EngineZeroGrad] \<and>
                 EngineZeroGrad \<notin> set pre" by blast
        with True \<open>ACCUM_ITER cfg \<noteq> 0\<close> show ?thesis by simp
      next
        case False
        then have "EngineZeroGrad \<notin> set evs"
          by (auto simp add: ev step_events_def split: if_splits)
        with False show ?thesis by auto
      qed
    qed
  qed
qed

theorem zero_grad_placement_witness:
  "example_epoch 0 \<in> set (epoch_logs (main example_config example_loader id)) \<and>
   begin_events (example_epoch 0) = [EngineTrain, EngineZeroGrad] \<and>
   EngineZeroGrad \<notin> set (end_events (example_epoch 0)) \<and>
   (1, example_batch 0 1) \<in> set (batch_logs (example_epoch 0)) \<and>
   example_batch 0 1 =
     [ModelForward (Finite 3 (- 2)) (Finite 9 (- 2))] @
     [ScalerCall (TrueDiv (Loss (Finite 9 (- 2))) 2) EngineOptimizer EngineModel True,
      EngineZeroGrad] \<and>
   (0, example_batch 0 0) \<in> set (batch_logs (example_epoch 0)) \<and>
   EngineZeroGrad \<notin> set (example_batch 0 0)"
proof -
  note h = example_members(1)
  from zero_grad_placement[OF h]
  have "begin_events (example_epoch 0) = [EngineTrain, EngineZeroGrad]"
    and "EngineZeroGrad \<notin> set (end_events (example_epoch 0))"
    and "\<forall>(i, evs) \<in> set (batch_logs (example_epoch 0)).
            if ACCUM_ITER example_config \<noteq> 0 \<and>
               isfinite (example_loader (epoch_index (example_epoch 0)) ! i) \<and>
               (int i + 1) mod ACCUM_ITER example_config = 0
            then \<exists>pre t. evs = pre @ [ScalerCall t EngineOptimizer EngineModel True, EngineZeroGrad] \<and>
                   EngineZeroGrad \<notin> set pre
            else EngineZeroGrad \<notin> set evs"
    by auto
  from this(3) example_members(4) have "EngineZeroGrad \<notin> set (example_batch 0 0)"
    by (auto simp: example_members(7) example_loader_def)
  moreover have "example_batch 0 1 =
     [ModelForward (Finite 3 (- 2)) (Finite 9 (- 2))] @
     [ScalerCall (TrueDiv (Loss (Finite 9 (- 2))) 2) EngineOptimizer EngineModel True,
      EngineZeroGrad]"
    by (simp add: example_simps step_events_def)
  ultimately show ?thesis
    using \<open>begin_events (example_epoch 0) = [EngineTrain, EngineZeroGrad]\<close>
      \<open>EngineZeroGrad \<notin> set (end_events (example_epoch 0))\<close> example_members by simp
qed

section \<open>Learning-rate adjustment\<close>

text \<open>
  C3: for every batch index \<open>i\<close> reached (with \<open>ACCUM_ITER\<close> not zero), the learning
  rate is adjusted exactly once when \<open>i mod ACCUM_ITER = 0\<close> and not at all otherwise;
  the adjustment is a call on the optimizer with the position
  \<open>i / len(train_dataloader) + epoch\<close> and the configured base rate, minimum rate,
  number of epochs and warmup epochs. No adjustment is made at the start or the end of an
  epoch.
\<close>

theorem lr_adjusted_once_per_window:
  assumes "elog \<in> set (epoch_logs (main cfg ld lm))" and "(i, evs) \<in> set (batch_logs elog)"
    and "ACCUM_ITER cfg \<noteq> 0"
  shows "filter is_lr_adjust evs =
           (if int i mod ACCUM_ITER cfg = 0
            then [LrSchedAdjust EngineOptimizer
                    (EpochPosition i (length (ld (epoch_index elog))) (epoch_index elog))
                    \<lparr>lr = LEARNING_RATE cfg, min_lr = MINIMUM_LEARNING_RATE cfg,
                     epochs = NUM_EPOCHS cfg, warmup_epochs = WARMUP_EPOCHS cfg\<rparr>]
            else []) \<and>
         filter is_lr_adjust (begin_events elog) = [] \<and>
         filter is_lr_adjust (end_events elog) = []"
proof (intro conjI)
  show "filter is_lr_adjust evs =
           (if int i mod ACCUM_ITER cfg = 0
            then [LrSchedAdjust EngineOptimizer
                    (EpochPosition i (length (ld (epoch_index elog))) (epoch_index elog))
                    \<lparr>lr = LEARNING_RATE cfg, min_lr = MINIMUM_LEARNING_RATE cfg,
                     epochs = NUM_EPOCHS cfg, warmup_epochs = WARMUP_EPOCHS cfg\<rparr>]
            else [])"
    unfolding main_batch_events[OF assms] by (simp add: step_events_def)
  show "filter is_lr_adjust (begin_events elog) = []"
    by (simp add: main_begin_events[OF assms(1)])
  show "filter is_lr_adjust (end_events elog) = []"
    using end_events_cases[OF assms(1)] by (auto simp: save_model_def Let_def)
qed

theorem lr_adjusted_once_per_window_witness:
  "example_epoch 0 \<in> set (epoch_logs (main example_config example_loader id)) \<and>
   (2, example_batch 0 2) \<in> set (batch_logs (example_epoch 0)) \<and>
   (1, example_batch 0 1) \<in> set (batch_logs (example_epoch 0)) \<and>
   ACCUM_ITER example_config \<noteq> 0 \<and>
   filter is_lr_adjust (example_batch 0 2) =
     [LrSchedAdjust EngineOptimizer (EpochPosition 2 3 0)
        \<lparr>lr = Finite 3 (- 11), min_lr = Finite 0 0, epochs = 3, warmup_epochs = 1\<rparr>] \<and>
   filter is_lr_adjust (example_batch 0 1) = []"
proof -
  have k: "ACCUM_ITER example_config \<noteq> 0" by simp
  from lr_adjusted_once_per_window[OF example_members(1) example_members(6) k]
    lr_adjusted_once_per_window[OF example_members(1) example_members(5) k]
  show ?thesis using example_members k by (simp add: example_loader_def)
qed

section \<open>A loss that is not finite\<close>

text \<open>
  C4: whenever the forward pass of a batch has returned a loss that is not finite, the
  run has stopped with \<^verbatim>\<open>sys.exit(1)\<close>; that batch is the last one of the last epoch
  of the run, nothing but the message follows its forward pass (no retry), and no
  checkpoint is written in that epoch. When the loss is finite nothing is printed, the
  scaler is called with it, and the loop goes on: to the next batch if there is one, to the
  checkpoint decision of the epoch otherwise.
\<close>

theorem non_finite_loss_exits:
  assumes "elog \<in> set (epoch_logs (main cfg ld lm))" and "(i, evs) \<in> set (batch_logs elog)"
    and "ModelForward m l \<in> set evs"
  shows "if isfinite l
         then Print l \<notin> set evs \<and>
              ScalerCall (TrueDiv (Loss l) (ACCUM_ITER cfg)) EngineOptimizer EngineModel
                ((int i + 1) mod ACCUM_ITER cfg = 0) \<in> set evs \<and>
              (Suc i < length (ld (epoch_index elog)) \<longrightarrow>
                 (\<exists>evs'. (Suc i, evs') \<in> set (batch_logs elog))) \<and>
              (Suc i = length (ld (epoch_index elog)) \<longrightarrow>
                 end_events elog = fst (checkpoint_step cfg (epoch_index elog)))
         else stopped (main cfg ld lm) = Some (SysExit 1) \<and>
              last (epoch_logs (main cfg ld lm)) = elog \<and>
              last (batch_logs elog) = (i, evs) \<and>
              (\<exists>pre. evs = pre @ [ModelForward m l, Print l] \<and> ModelForward m l \<notin> set pre) \<and>
              end_events elog = [] \<and>
              filter is_torch_save (events_of elog) = []"
proof -
  let ?e = "epoch_index elog"
  let ?n = "length (ld ?e)"
  let ?r = "if RESUME cfg then snd (resume_model lm cfg) else 0"
  from forward_in_batch_log[OF assms] have k: "ACCUM_ITER cfg \<noteq> 0" and l: "l = ld ?e ! i"
    and m: "m = MASK_RATIO cfg" by auto
  from main_batch_log[OF assms(1,2)] have i: "i < ?n" by simp
  then have n: "?n \<noteq> 0" by auto
  note ev = main_batch_events[OF assms(1,2) k]
  have bl: "batch_logs elog = fst (train_batches cfg ?n ?e 0 (ld ?e))"
    using main_epoch_log[OF assms(1)] train_epoch_batch_logs[of cfg ld ?e] by simp
  obtain logs r where tb: "train_batches cfg ?n ?e 0 (ld ?e) = (logs, r)"
    by (cases "train_batches cfg ?n ?e 0 (ld ?e)") auto
  with bl assms(2) have mem: "(i, evs) \<in> set logs" by simp
  have step: "snd (train_step cfg ?n ?e i (ld ?e ! (i - 0))) =
                (if isfinite l then None else Some (SysExit 1))"
    by (simp add: train_step_closed[OF k n] l)
  obtain elogs x where el: "epochs_loop cfg ld ?r = (elogs, x)"
    by (cases "epochs_loop cfg ld ?r") auto
  then have elogs: "epoch_logs (main cfg ld lm) = elogs" and x: "stopped (main cfg ld lm) = x"
    by (simp_all add: main_epoch_logs main_stopped)
  show ?thesis
  proof (cases "isfinite l")
    case True
    with step have none: "snd (train_step cfg ?n ?e i (ld ?e ! (i - 0))) = None" by simp
    have "Print l \<notin> set evs" using True by (auto simp: ev step_events_def l)
    moreover have "ScalerCall (TrueDiv (Loss l) (ACCUM_ITER cfg)) EngineOptimizer EngineModel
                ((int i + 1) mod ACCUM_ITER cfg = 0) \<in> set evs"
      using True by (simp add: ev step_events_def l)
    moreover have "\<exists>evs'. (Suc i, evs') \<in> set (batch_logs elog)" if "Suc i < ?n"
      using train_batches_next[OF tb mem none] that bl tb by simp
    moreover have "end_events elog = fst (checkpoint_step cfg ?e)" if "Suc i = ?n"
    proof -
      from train_batches_last_None[OF tb mem none] that have "r = None" by simp
      with tb show ?thesis by (simp add: main_end_events[OF assms(1)])
    qed
    ultimately show ?thesis using True by simp
  next
    case False
    note stop = non_finite_stops[OF assms False]
    then have ee: "end_events elog = []" by simp
    have "\<exists>pre. evs = pre @ [ModelForward m l, Print l] \<and> ModelForward m l \<notin> set pre"
    proof (cases "int i mod ACCUM_ITER cfg = 0")
      case True
      with False have "evs = [LrSchedAdjust EngineOptimizer (EpochPosition i ?n ?e)
               \<lparr>lr = LEARNING_RATE cfg, min_lr = MINIMUM_LEARNING_RATE cfg,
                epochs = NUM_EPOCHS cfg, warmup_epochs = WARMUP_EPOCHS cfg\<rparr>] @
             [ModelForward m l, Print l]"
        by (simp add: ev step_events_def l m)
      then show ?thesis by (intro exI conjI) (assumption, simp)
    next
      case nz: False
      with False have "evs = [] @ [ModelForward m l, Print l]"
        by (simp add: ev step_events_def l m)
      then show ?thesis by (intro exI conjI) (assumption, simp)
    qed
    moreover have "filter is_torch_save (events_of elog) = []"
      using batches_no_save[OF assms(1)] ee by (simp add: events_of_def)
    ultimately show ?thesis using False stop by simp
  qed
qed

theorem non_finite_loss_exits_witness:
  "diverging_epoch 1 \<in> set (epoch_logs (main example_config diverging_loader id)) \<and>
   (2, diverging_batch 1 2) \<in> set (batch_logs (diverging_epoch 1)) \<and>
   ModelForward (Finite 3 (- 2)) NaN \<in> set (diverging_batch 1 2) \<and>
   \<not> isfinite NaN \<and>
   stopped (main example_config diverging_loader id) = Some (SysExit 1) \<and>
   last (epoch_logs (main example_config diverging_loader id)) = diverging_epoch 1 \<and>
   last (batch_logs (diverging_epoch 1)) = (2, diverging_batch 1 2) \<and>
   end_events (diverging_epoch 1) = [] \<and>
   filter is_torch_save (events_of (diverging_epoch 1)) = [] \<and>
   (0, diverging_batch 1 0) \<in> set (batch_logs (diverging_epoch 1)) \<and>
   ModelForward (Finite 3 (- 2)) (Finite 5 (- 1)) \<in> set (diverging_batch 1 0) \<and>
   isfinite (Finite 5 (- 1)) \<and>
   ScalerCall (TrueDiv (Loss (Finite 5 (- 1))) 2) EngineOptimizer EngineModel False
     \<in> set (diverging_batch 1 0)"
proof -
  have f1: "ModelForward (Finite 3 (- 2)) NaN \<in> set (diverging_batch 1 2)"
    by (simp add: example_simps step_events_def)
  have f2: "ModelForward (Finite 3 (- 2)) (Finite 5 (- 1)) \<in> set (diverging_batch 1 0)"
    by (simp add: example_simps step_events_def)
  from non_finite_loss_exits[OF diverging_members(1) diverging_members(3) f1]
    non_finite_loss_exits[OF diverging_members(1) diverging_members(2) f2]
  show ?thesis using diverging_members f1 f2 by simp
qed

section \<open>When a checkpoint is saved\<close>

text \<open>
  C5: within an epoch a checkpoint can only be saved at its end. With no output directory
  configured no \<^verbatim>\<open>torch.save\<close> is made. With an output directory (and
  \<open>CHECKPOINT_INTERVAL\<close> not zero), an epoch \<open>e\<close> whose batches all ran makes exactly
  one \<^verbatim>\<open>torch.save\<close>, of the checkpoint record of epoch \<open>e\<close> to
  \<open>OUTPUT_DIR/checkpoint-e.pth\<close>, if \<open>e mod CHECKPOINT_INTERVAL = 0\<close> or
  \<open>e = NUM_EPOCHS - 1\<close>, and none otherwise.
\<close>

theorem checkpoint_cadence:
  assumes "elog \<in> set (epoch_logs (main cfg ld lm))"
  shows "filter is_torch_save (begin_events elog @ concat (map snd (batch_logs elog))) = [] \<and>
         (OUTPUT_DIR cfg = None \<longrightarrow>
            end_events elog = [] \<and> filter is_torch_save (events_of elog) = []) \<and>
         (\<forall>dir. OUTPUT_DIR cfg = Some dir \<and> CHECKPOINT_INTERVAL cfg \<noteq> 0 \<and>
                (\<forall>l \<in> set (ld (epoch_index elog)). isfinite l) \<and>
                (ACCUM_ITER cfg \<noteq> 0 \<or> ld (epoch_index elog) = []) \<longrightarrow>
            end_events elog =
              (if epoch_index elog mod CHECKPOINT_INTERVAL cfg = 0 \<or>
                  epoch_index elog = NUM_EPOCHS cfg - 1
               then [save_model EngineModel dir (epoch_index elog) cfg EngineOptimizer LossScaler]
               else []) \<and>
            filter is_torch_save (events_of elog) =
              (if epoch_index elog mod CHECKPOINT_INTERVAL cfg = 0 \<or>
                  epoch_index elog = NUM_EPOCHS cfg - 1
               then [TorchSave
                       [(''model'', StateDict EngineModel),
                        (''optimizer'', StateDict EngineOptimizer),
                        (''epoch'', IntValue (epoch_index elog)),
                        (''scaler'', StateDict LossScaler),
                        (''config'', ConfigValue cfg)]
                       (dir @ [''checkpoint-'' @ str_int (epoch_index elog) @ ''.pth''])]
               else []))"
proof -
  let ?e = "epoch_index elog"
  have inner: "filter is_torch_save (begin_events elog @ concat (map snd (batch_logs elog))) = []"
    by (rule batches_no_save[OF assms])
  then have saves: "filter is_torch_save (events_of elog) = filter is_torch_save (end_events elog)"
    by (simp add: events_of_def)
  have none: "end_events elog = [] \<and> filter is_torch_save (events_of elog) = []"
    if "OUTPUT_DIR cfg = None"
    using that saves
    by (simp add: main_end_events[OF assms] checkpoint_step_events split: option.splits)
  have some: "end_events elog =
              (if ?e mod CHECKPOINT_INTERVAL cfg = 0 \<or> ?e = NUM_EPOCHS cfg - 1
               then [save_model EngineModel dir ?e cfg EngineOptimizer LossScaler]
               else []) \<and>
            filter is_torch_save (events_of elog) =
              (if ?e mod CHECKPOINT_INTERVAL cfg = 0 \<or> ?e = NUM_EPOCHS cfg - 1
               then [TorchSave
                       [(''model'', StateDict EngineModel),
                        (''optimizer'', StateDict EngineOptimizer),
                        (''epoch'', IntValue ?e),
                        (''scaler'', StateDict LossScaler),
                        (''config'', ConfigValue cfg)]
                       (dir @ [''checkpoint-'' @ str_int ?e @ ''.pth''])]
               else [])"
    if h: "OUTPUT_DIR cfg = Some dir \<and> CHECKPOINT_INTERVAL cfg \<noteq> 0 \<and>
           (\<forall>l \<in> set (ld ?e). isfinite l) \<and> (ACCUM_ITER cfg \<noteq> 0 \<or> ld ?e = [])"
    for dir
  proof -
    from h have "snd (train_batches cfg (length (ld ?e)) ?e 0 (ld ?e)) = None"
      by (intro train_batches_done) auto
    moreover have "?e + 1 = NUM_EPOCHS cfg \<longleftrightarrow> ?e = NUM_EPOCHS cfg - 1" by arith
    ultimately have ee: "end_events elog =
              (if ?e mod CHECKPOINT_INTERVAL cfg = 0 \<or> ?e = NUM_EPOCHS cfg - 1
               then [save_model EngineModel dir ?e cfg EngineOptimizer LossScaler]
               else [])"
      using h by (simp add: main_end_events[OF assms] checkpoint_step_events)
    show ?thesis
      unfolding saves by (simp add: ee save_model_def Let_def joinpath_def)
  qed
  show ?thesis using inner none some by blast
qed

theorem checkpoint_cadence_witness:
  "example_epoch 0 \<in> set (epoch_logs (main example_config example_loader id)) \<and>
   example_epoch 1 \<in> set (epoch_logs (main example_config example_loader id)) \<and>
   example_epoch 2 \<in> set (epoch_logs (main example_config example_loader id)) \<and>
   OUTPUT_DIR example_config = Some [''output''] \<and>
   CHECKPOINT_INTERVAL example_config \<noteq> 0 \<and>
   list_all isfinite (example_loader 0) \<and>
   ACCUM_ITER example_config \<noteq> 0 \<and>
   end_events (example_epoch 0) =
     [save_model EngineModel [''output''] 0 example_config EngineOptimizer LossScaler] \<and>
   filter is_torch_save (events_of (example_epoch 0)) =
     [TorchSave [(''model'', StateDict EngineModel), (''optimizer'', StateDict EngineOptimizer),
                 (''epoch'', IntValue 0), (''scaler'', StateDict LossScaler),
                 (''config'', ConfigValue example_config)]
                [''output'', ''checkpoint-0.pth'']] \<and>
   end_events (example_epoch 1) = [] \<and>
   filter is_torch_save (events_of (example_epoch 1)) = [] \<and>
   end_events (example_epoch 2) =
     [save_model EngineModel [''output''] 2 example_config EngineOptimizer LossScaler] \<and>
   filter is_torch_save (events_of (example_epoch 2)) =
     [TorchSave [(''model'', StateDict EngineModel), (''optimizer'', StateDict EngineOptimizer),
                 (''epoch'', IntValue 2), (''scaler'', StateDict LossScaler),
                 (''config'', ConfigValue example_config)]
                [''output'', ''checkpoint-2.pth'']] \<and>
   OUTPUT_DIR quiet_config = None \<and>
   end_events (hd (epoch_logs (main quiet_config example_loader id))) = [] \<and>
   filter is_torch_save (events_of (hd (epoch_logs (main quiet_config example_loader id)))) = []"
proof -
  have q: "OUTPUT_DIR quiet_config = None" by (simp add: quiet_config_def)
  have fin: "list_all isfinite (example_loader e)" for e by (simp add: example_loader_def)
  have s0: "str_int 0 = ''0''" by code_simp
  have s2: "str_int 2 = ''2''" by code_simp
  from checkpoint_cadence[OF example_members(1)] checkpoint_cadence[OF example_members(2)]
    checkpoint_cadence[OF example_members(3)] checkpoint_cadence[OF quiet_run]
  show ?thesis using example_members q fin by (simp add: list_all_iff s0 s2)
qed

section \<open>What a checkpoint holds\<close>

text \<open>
  C6: every checkpoint saved in a run is the record with exactly the five keys
  \<open>model\<close>, \<open>optimizer\<close>, \<open>epoch\<close>, \<open>scaler\<close> and \<open>config\<close>, holding the model's
  state, the optimizer's state, the integer epoch index, the loss scaler's state and the
  configuration object, and it is written to \<open>OUTPUT_DIR/checkpoint-<epoch>.pth\<close>.
\<close>

theorem checkpoint_record:
  assumes "elog \<in> set (epoch_logs (main cfg ld lm))" and "TorchSave d p \<in> set (events_of elog)"
  shows "d = [(''model'', StateDict EngineModel),
              (''optimizer'', StateDict EngineOptimizer),
              (''epoch'', IntValue (epoch_index elog)),
              (''scaler'', StateDict LossScaler),
              (''config'', ConfigValue cfg)] \<and>
         distinct (map fst d) \<and>
         (\<exists>dir. OUTPUT_DIR cfg = Some dir \<and>
                p = dir @ [''checkpoint-'' @ str_int (epoch_index elog) @ ''.pth''])"
proof -
  have "TorchSave d p \<notin> set (begin_events elog @ concat (map snd (batch_logs elog)))"
  proof
    assume "TorchSave d p \<in> set (begin_events elog @ concat (map snd (batch_logs elog)))"
    then have "TorchSave d p \<in> set (filter is_torch_save
                 (begin_events elog @ concat (map snd (batch_logs elog))))"
      by simp
    with batches_no_save[OF assms(1)] show False by simp
  qed
  with assms(2) have "TorchSave d p \<in> set (end_events elog)"
    by (auto simp: events_of_def)
  with end_events_cases[OF assms(1)] obtain dir where "OUTPUT_DIR cfg = Some dir"
    and "TorchSave d p = save_model EngineModel dir (epoch_index elog) cfg EngineOptimizer LossScaler"
    by auto
  then show ?thesis by (simp add: save_model_def Let_def joinpath_def)
qed

theorem checkpoint_record_witness:
  "example_epoch 2 \<in> set (epoch_logs (main example_config example_loader id)) \<and>
   TorchSave [(''model'', StateDict EngineModel), (''optimizer'', StateDict EngineOptimizer),
              (''epoch'', IntValue 2), (''scaler'', StateDict LossScaler),
              (''config'', ConfigValue example_config)]
             [''output'', ''checkpoint-2.pth''] \<in> set (events_of (example_epoch 2)) \<and>
   str_int (epoch_index (example_epoch 2)) = ''2''"
proof -
  have s: "str_int 2 = ''2''" by code_simp
  have m: "TorchSave [(''model'', StateDict EngineModel), (''optimizer'', StateDict EngineOptimizer),
              (''epoch'', IntValue 2), (''scaler'', StateDict LossScaler),
              (''config'', ConfigValue example_config)]
             [''output'', ''checkpoint-2.pth''] \<in> set (events_of (example_epoch 2))"
    by (simp add: example_simps events_of_def save_model_def joinpath_def s)
  from checkpoint_record[OF example_members(3) m]
  show ?thesis using example_members m s by simp
qed

section \<open>The epochs visited\<close>

text \<open>
  C7, as amended: the epochs a run visits are consecutive integers starting at the start
  epoch, hence strictly increasing, and none exceeds \<open>NUM_EPOCHS - 1\<close>; a run that ends
  normally has visited all of them up to \<open>NUM_EPOCHS - 1\<close>, and a run with finite losses
  (and \<open>ACCUM_ITER\<close>, \<open>CHECKPOINT_INTERVAL\<close> not zero) does end normally. The start
  epoch is \<open>0\<close> when the resume flag is unset, and otherwise the epoch returned by
  \<open>resume_model\<close>: the \<open>start_epoch\<close> attribute of the argument object, built with
  the configured \<open>RESUME_START_EPOCH\<close>, as the checkpoint loader leaves it.
\<close>

theorem epochs_visited:
  "map epoch_index (epoch_logs (main cfg ld lm)) =
     [(if RESUME cfg then snd (resume_model lm cfg) else 0) ..
      (if RESUME cfg then snd (resume_model lm cfg) else 0) +
        int (length (epoch_logs (main cfg ld lm))) - 1] \<and>
   sorted_wrt (<) (map epoch_index (epoch_logs (main cfg ld lm))) \<and>
   (\<forall>elog \<in> set (epoch_logs (main cfg ld lm)). epoch_index elog \<le> NUM_EPOCHS cfg - 1) \<and>
   (stopped (main cfg ld lm) = None \<longrightarrow>
      map epoch_index (epoch_logs (main cfg ld lm)) =
        [(if RESUME cfg then snd (resume_model lm cfg) else 0) .. NUM_EPOCHS cfg - 1]) \<and>
   ((\<forall>e. \<forall>l \<in> set (ld e). isfinite l) \<and> ACCUM_ITER cfg \<noteq> 0 \<and>
    (OUTPUT_DIR cfg = None \<or> CHECKPOINT_INTERVAL cfg \<noteq> 0) \<longrightarrow>
      stopped (main cfg ld lm) = None) \<and>
   snd (resume_model lm cfg) =
     start_epoch (lm \<lparr>resume = RESUME_ADDRESS cfg, start_epoch = RESUME_START_EPOCH cfg\<rparr>)"
proof -
  let ?s = "if RESUME cfg then snd (resume_model lm cfg) else 0"
  obtain elogs x where el: "epochs_loop cfg ld ?s = (elogs, x)"
    by (cases "epochs_loop cfg ld ?s") auto
  then have elogs: "epoch_logs (main cfg ld lm) = elogs" and x: "stopped (main cfg ld lm) = x"
    by (simp_all add: main_epoch_logs main_stopped)
  have idx: "map epoch_index elogs = [?s .. ?s + int (length elogs) - 1]"
    by (rule epochs_loop_index[OF el])
  have "sorted_wrt (<) (map epoch_index elogs)"
    unfolding idx by (simp add: strict_sorted_iff)
  moreover have "\<forall>elog \<in> set elogs. epoch_index elog \<le> NUM_EPOCHS cfg - 1"
    using epochs_loop_mem[OF el] by fastforce
  moreover have "map epoch_index elogs = [?s .. NUM_EPOCHS cfg - 1]" if "x = None"
    using epochs_loop_None[of cfg ld ?s elogs] el that by simp
  moreover have "stopped (main cfg ld lm) = None"
    if "(\<forall>e. \<forall>l \<in> set (ld e). isfinite l) \<and> ACCUM_ITER cfg \<noteq> 0 \<and>
        (OUTPUT_DIR cfg = None \<or> CHECKPOINT_INTERVAL cfg \<noteq> 0)"
    using that by (intro main_progress) auto
  moreover have "snd (resume_model lm cfg) =
     start_epoch (lm \<lparr>resume = RESUME_ADDRESS cfg, start_epoch = RESUME_START_EPOCH cfg\<rparr>)"
    by (simp add: resume_model_def Let_def)
  ultimately show ?thesis using idx elogs x by simp
qed

text \<open>
  The claim as first stated takes the returned epoch to be the configured resume start
  epoch. \<open>resume_model\<close> returns the attribute as read after the checkpoint loader ran
  on the argument object, not the setting: with a loader that stores \<open>1\<close> there and
  \<open>RESUME_START_EPOCH = 0\<close>, the run visits the epochs \<open>1\<close> and \<open>2\<close>.
\<close>

theorem resumed_epoch_counterexample:
  "RESUME rewound_config \<and>
   RESUME_START_EPOCH rewound_config = 0 \<and>
   NUM_EPOCHS rewound_config = 3 \<and>
   snd (resume_model rewriting_loader rewound_config) = 1 \<and>
   snd (resume_model rewriting_loader rewound_config) \<noteq> RESUME_START_EPOCH rewound_config \<and>
   stopped (main rewound_config example_loader rewriting_loader) = None \<and>
   map epoch_index (epoch_logs (main rewound_config example_loader rewriting_loader)) = [1, 2]"
proof -
  have r: "RESUME rewound_config" "RESUME_START_EPOCH rewound_config = 0"
    "NUM_EPOCHS rewound_config = 3"
    by (simp_all add: rewound_config_def example_config_def)
  show ?thesis using r by (simp add: rewound_run)
qed

theorem epochs_visited_witness:
  "stopped (main example_config example_loader id) = None \<and>
   map epoch_index (epoch_logs (main example_config example_loader id)) = [0, 1, 2] \<and>
   RESUME resumed_config \<and>
   RESUME_START_EPOCH resumed_config = 2 \<and>
   snd (resume_model id resumed_config) = 2 \<and>
   stopped (main resumed_config example_loader id) = None \<and>
   map epoch_index (epoch_logs (main resumed_config example_loader id)) = [2] \<and>
   RESUME rewound_config \<and>
   snd (resume_model rewriting_loader rewound_config) = 1 \<and>
   stopped (main rewound_config example_loader rewriting_loader) = None \<and>
   map epoch_index (epoch_logs (main rewound_config example_loader rewriting_loader)) = [1, 2]"
proof -
  have r: "RESUME resumed_config" "RESUME_START_EPOCH resumed_config = 2"
    "NUM_EPOCHS resumed_config = 3" "RESUME rewound_config"
    by (simp_all add: resumed_config_def rewound_config_def example_config_def)
  have u: "[0 .. (2::int)] = [0, 1, 2]" by (simp add: upto_rec1)
  from epochs_visited[of example_config example_loader id]
    epochs_visited[of resumed_config example_loader id]
    epochs_visited[of rewound_config example_loader rewriting_loader]
  show ?thesis using r by (simp add: example_simps resumed_run rewound_run u)
qed

section \<open>What a diverging batch leaves behind\<close>

text \<open>
  C9, as amended: for every batch whose loss is not finite, the check stops the run
  before the loss scaler and zero-grad are called, so no backward pass is made for that
  batch; its calls leave the optimizer's step count and applied gradients, the model
  gradients and the loss scaler's state as they were. The one write to the optimizer the
  batch can have made is the learning-rate adjustment, which precedes the forward pass
  when \<open>i mod ACCUM_ITER = 0\<close>; when \<open>i mod ACCUM_ITER\<close> is not zero the whole state is
  unchanged.
\<close>

theorem non_finite_loss_before_scaler:
  assumes "elog \<in> set (epoch_logs (main cfg ld lm))" and "(i, evs) \<in> set (batch_logs elog)"
    and "ModelForward m l \<in> set evs" and "\<not> isfinite l"
  shows "filter is_scaler_call evs = [] \<and> EngineZeroGrad \<notin> set evs \<and>
         stopped (main cfg ld lm) = Some (SysExit 1) \<and>
         apply_events evs s =
           (if int i mod ACCUM_ITER cfg = 0
            then s\<lparr>learning_rate :=
                     Some (EpochPosition i (length (ld (epoch_index elog))) (epoch_index elog),
                           \<lparr>lr = LEARNING_RATE cfg, min_lr = MINIMUM_LEARNING_RATE cfg,
                            epochs = NUM_EPOCHS cfg, warmup_epochs = WARMUP_EPOCHS cfg\<rparr>)\<rparr>
            else s) \<and>
         optimizer_steps (apply_events evs s) = optimizer_steps s \<and>
         applied (apply_events evs s) = applied s \<and>
         gradients (apply_events evs s) = gradients s \<and>
         scaler_updates (apply_events evs s) = scaler_updates s"
proof -
  from forward_in_batch_log[OF assms(1-3)] have k: "ACCUM_ITER cfg \<noteq> 0"
    and l: "l = ld (epoch_index elog) ! i" by auto
  note ev = main_batch_events[OF assms(1,2) k]
  have "stopped (main cfg ld lm) = Some (SysExit 1)"
    using non_finite_stops[OF assms] by simp
  then show ?thesis using assms(4) l by (simp add: ev step_events_def)
qed

text \<open>
  The claim as first stated, that the optimizer state is not mutated by the diverging
  batch, fails in the diverging example run: the third batch of the second epoch opens
  an accumulation window, so the learning rate held by the optimizer is rewritten before
  the forward pass returns NaN.
\<close>

theorem non_finite_loss_counterexample:
  "diverging_epoch 1 \<in> set (epoch_logs (main example_config diverging_loader id)) \<and>
   (2, diverging_batch 1 2) \<in> set (batch_logs (diverging_epoch 1)) \<and>
   ModelForward (Finite 3 (- 2)) NaN \<in> set (diverging_batch 1 2) \<and>
   \<not> isfinite NaN \<and>
   stopped (main example_config diverging_loader id) = Some (SysExit 1) \<and>
   learning_rate diverging_state_before =
     Some (EpochPosition 0 3 1,
           \<lparr>lr = Finite 3 (- 11), min_lr = Finite 0 0, epochs = 3, warmup_epochs = 1\<rparr>) \<and>
   learning_rate (apply_events (diverging_batch 1 2) diverging_state_before) =
     Some (EpochPosition 2 3 1,
           \<lparr>lr = Finite 3 (- 11), min_lr = Finite 0 0, epochs = 3, warmup_epochs = 1\<rparr>) \<and>
   apply_events (diverging_batch 1 2) diverging_state_before \<noteq> diverging_state_before"
proof -
  have a: "learning_rate diverging_state_before =
     Some (EpochPosition 0 3 1,
           \<lparr>lr = Finite 3 (- 11), min_lr = Finite 0 0, epochs = 3, warmup_epochs = 1\<rparr>)"
    by (simp add: diverging_state_before_def initial_state_def example_simps events_of_def
        step_events_def save_model_def)
  have b: "learning_rate (apply_events (diverging_batch 1 2) diverging_state_before) =
     Some (EpochPosition 2 3 1,
           \<lparr>lr = Finite 3 (- 11), min_lr = Finite 0 0, epochs = 3, warmup_epochs = 1\<rparr>)"
    by (simp add: example_simps step_events_def)
  have c: "apply_events (diverging_batch 1 2) diverging_state_before \<noteq> diverging_state_before"
  proof
    assume "apply_events (diverging_batch 1 2) diverging_state_before = diverging_state_before"
    then have "learning_rate (apply_events (diverging_batch 1 2) diverging_state_before) =
               learning_rate diverging_state_before" by simp
    with a b show False by simp
  qed
  have f: "ModelForward (Finite 3 (- 2)) NaN \<in> set (diverging_batch 1 2)"
    by (simp add: example_simps step_events_def)
  show ?thesis using a b c f diverging_members by (simp add: diverging_run_eval)
qed

theorem non_finite_loss_before_scaler_witness:
  "diverging_epoch 1 \<in> set (epoch_logs (main example_config diverging_loader id)) \<and>
   (2, diverging_batch 1 2) \<in> set (batch_logs (diverging_epoch 1)) \<and>
   ModelForward (Finite 3 (- 2)) NaN \<in> set (diverging_batch 1 2) \<and>
   \<not> isfinite NaN \<and>
   filter is_scaler_call (diverging_batch 1 2) = [] \<and>
   EngineZeroGrad \<notin> set (diverging_batch 1 2) \<and>
   optimizer_steps (apply_events (diverging_batch 1 2) diverging_state_before) =
     optimizer_steps diverging_state_before \<and>
   applied (apply_events (diverging_batch 1 2) diverging_state_before) =
     applied diverging_state_before \<and>
   gradients (apply_events (diverging_batch 1 2) diverging_state_before) =
     gradients diverging_state_before \<and>
   scaler_updates (apply_events (diverging_batch 1 2) diverging_state_before) =
     scaler_updates diverging_state_before"
proof -
  have f: "ModelForward (Finite 3 (- 2)) NaN \<in> set (diverging_batch 1 2)"
    by (simp add: example_simps step_events_def)
  have n: "\<not> isfinite NaN" by simp
  from non_finite_loss_before_scaler[OF diverging_members(1) diverging_members(3) f n,
      of diverging_state_before]
  show ?thesis using diverging_members f by simp
qed

section \<open>The last, partial accumulation window\<close>

text \<open>
  C10: in an epoch whose losses are all finite, with \<open>ACCUM_ITER > 0\<close> and
  \<open>n = len(train_dataloader)\<close>, exactly \<open>n div ACCUM_ITER\<close> calls step the optimizer.
  No call of a batch in the final partial window (index at least
  \<open>(n div ACCUM_ITER) * ACCUM_ITER\<close>) steps it. After the epoch the optimizer has made
  \<open>n div ACCUM_ITER\<close> more steps, the gradients applied are those of the batches in
  complete windows, and the gradients of the final partial window are still accumulated,
  unapplied. Every epoch, hence the next one (which is run when there is one), begins with
  a zero-grad that empties the accumulated gradients without applying them.
\<close>

theorem partial_window_never_applied:
  assumes "elog \<in> set (epoch_logs (main cfg ld lm))" and "0 < ACCUM_ITER cfg"
    and "\<forall>l \<in> set (ld (epoch_index elog)). isfinite l"
  shows "length (filter steps_optimizer (events_of elog)) =
           length (ld (epoch_index elog)) div nat (ACCUM_ITER cfg) \<and>
         (\<forall>(i, evs) \<in> set (batch_logs elog).
            length (ld (epoch_index elog)) div nat (ACCUM_ITER cfg) * nat (ACCUM_ITER cfg) \<le> i \<longrightarrow>
            (\<forall>ev \<in> set evs. \<not> steps_optimizer ev)) \<and>
         optimizer_steps (apply_events (events_of elog) s) =
           optimizer_steps s + length (ld (epoch_index elog)) div nat (ACCUM_ITER cfg) \<and>
         applied (apply_events (events_of elog) s) =
           applied s @
           map (\<lambda>l. TrueDiv (Loss l) (ACCUM_ITER cfg))
             (take (length (ld (epoch_index elog)) div nat (ACCUM_ITER cfg) * nat (ACCUM_ITER cfg))
                (ld (epoch_index elog))) \<and>
         gradients (apply_events (events_of elog) s) =
           map (\<lambda>l. TrueDiv (Loss l) (ACCUM_ITER cfg))
             (drop (length (ld (epoch_index elog)) div nat (ACCUM_ITER cfg) * nat (ACCUM_ITER cfg))
                (ld (epoch_index elog))) \<and>
         begin_events elog = [EngineTrain, EngineZeroGrad] \<and>
         gradients (apply_events (begin_events elog) s) = [] \<and>
         applied (apply_events (begin_events elog) s) = applied s \<and>
         optimizer_steps (apply_events (begin_events elog) s) = optimizer_steps s \<and>
         (epoch_index elog + 1 < NUM_EPOCHS cfg \<and>
          (OUTPUT_DIR cfg = None \<or> CHECKPOINT_INTERVAL cfg \<noteq> 0) \<longrightarrow>
            (\<exists>elog' \<in> set (epoch_logs (main cfg ld lm)). epoch_index elog' = epoch_index elog + 1))"
proof -
  let ?e = "epoch_index elog"
  let ?ls = "ld ?e"
  let ?n = "length ?ls"
  let ?K = "nat (ACCUM_ITER cfg)"
  let ?sc = "\<lambda>l. TrueDiv (Loss l) (ACCUM_ITER cfg)"
  let ?body = "concat (map (\<lambda>j. step_events cfg ?n ?e j (?ls ! j)) [0..<?n])"
  let ?s0 = "s\<lparr>gradients := []\<rparr>"
  from assms(2) have k: "ACCUM_ITER cfg \<noteq> 0" and K: "0 < ?K" by simp_all
  note bl = main_batch_logs_finite[OF assms(1) k assms(3)]
  have beg: "begin_events elog = [EngineTrain, EngineZeroGrad]"
    by (rule main_begin_events[OF assms(1)])
  have body: "concat (map snd (batch_logs elog)) = ?body"
    unfolding bl by (simp add: comp_def)
  have ev: "events_of elog = [EngineTrain, EngineZeroGrad] @ ?body @ end_events elog"
    by (simp add: events_of_def beg body)
  have st: "apply_events (events_of elog) s = apply_events ?body ?s0"
    unfolding ev by (simp add: apply_end_events[OF assms(1)])
  have "gradients ?s0 = []" by simp
  from apply_batches_prefix[OF assms(2,3) this le_refl, of ?n ?e]
  have steps: "optimizer_steps (apply_events ?body ?s0) = optimizer_steps s + ?n div ?K"
    and app: "applied (apply_events ?body ?s0) = applied s @ map ?sc (take (?n div ?K * ?K) ?ls)"
    and gr: "gradients (apply_events ?body ?s0) = map ?sc (drop (?n div ?K * ?K) ?ls)"
    by simp_all
  have count: "length (filter steps_optimizer (events_of elog)) = ?n div ?K"
    using optimizer_steps_count[of "events_of elog" s] steps st by simp
  have tail: "\<forall>(i, evs) \<in> set (batch_logs elog).
            ?n div ?K * ?K \<le> i \<longrightarrow> (\<forall>ev \<in> set evs. \<not> steps_optimizer ev)"
  proof (clarify)
    fix i evs ev
    assume mem: "(i, evs) \<in> set (batch_logs elog)" and le: "?n div ?K * ?K \<le> i"
      and evm: "ev \<in> set evs" and so: "steps_optimizer ev"
    from main_batch_log[OF assms(1) mem] have i: "i < ?n" by simp
    from last_window_no_step[OF K le i] have "(int i + 1) mod ACCUM_ITER cfg \<noteq> 0"
      using mod_int_nat[OF assms(2)] by simp
    with main_batch_events[OF assms(1) mem k] evm so show False
      by (auto simp: step_events_def split: if_splits)
  qed
  have nxt: "\<exists>elog' \<in> set (epoch_logs (main cfg ld lm)). epoch_index elog' = ?e + 1"
    if "?e + 1 < NUM_EPOCHS cfg \<and> (OUTPUT_DIR cfg = None \<or> CHECKPOINT_INTERVAL cfg \<noteq> 0)"
  proof -
    have "snd (train_epoch cfg ld ?e) = None"
      using that train_batches_done[of ?ls cfg ?e] assms(3) k
      by (auto simp add: train_epoch_snd checkpoint_step_exit)
    moreover obtain elogs x where
      "epochs_loop cfg ld (if RESUME cfg then snd (resume_model lm cfg) else 0) = (elogs, x)"
      by (cases "epochs_loop cfg ld (if RESUME cfg then snd (resume_model lm cfg) else 0)") auto
    ultimately show ?thesis
      using epochs_loop_next[of cfg ld _ elogs x elog] assms(1) that
      by (simp add: main_epoch_logs)
  qed
  show ?thesis
    using count tail steps app gr beg nxt unfolding st by (simp add: beg)
qed

theorem partial_window_never_applied_witness:
  "example_epoch 0 \<in> set (epoch_logs (main example_config example_loader id)) \<and>
   0 < ACCUM_ITER example_config \<and>
   list_all isfinite (example_loader 0) \<and>
   length (filter steps_optimizer (events_of (example_epoch 0))) = 1 \<and>
   optimizer_steps (apply_events (events_of (example_epoch 0)) initial_state) = 1 \<and>
   applied (apply_events (events_of (example_epoch 0)) initial_state) =
     [TrueDiv (Loss (Finite 5 (- 1))) 2, TrueDiv (Loss (Finite 9 (- 2))) 2] \<and>
   gradients (apply_events (events_of (example_epoch 0)) initial_state) =
     [TrueDiv (Loss (Finite 1 1)) 2] \<and>
   example_epoch 1 \<in> set (epoch_logs (main example_config example_loader id)) \<and>
   gradients (apply_events (begin_events (example_epoch 1))
                (apply_events (events_of (example_epoch 0)) initial_state)) = [] \<and>
   applied (apply_events (begin_events (example_epoch 1))
              (apply_events (events_of (example_epoch 0)) initial_state)) =
     [TrueDiv (Loss (Finite 5 (- 1))) 2, TrueDiv (Loss (Finite 9 (- 2))) 2]"
proof -
  have k: "0 < ACCUM_ITER example_config" by simp
  have fin: "\<forall>l \<in> set (example_loader (epoch_index (example_epoch j))). isfinite l" for j
    by (simp add: example_loader_def)
  have three: "(3::nat) div 2 * 2 = 2" by simp
  from partial_window_never_applied[OF example_members(1) k fin, of initial_state]
    partial_window_never_applied[OF example_members(2) k fin,
      of "apply_events (events_of (example_epoch 0)) initial_state"]
  show ?thesis
    using example_members k
    by (simp add: example_loader_def initial_state_def three)
qed

end
